theory Spec2Isabelle
  imports Complex_Main "HOL-Library.Word"
begin

section \<open>Python values used by the decoder\<close>

text \<open>
  The decoder of \<^verbatim>\<open>src/fc/io.py\<close> is Python 2 code (\<^verbatim>\<open>basestring\<close>, \<^verbatim>\<open>xrange\<close>):
  a \<^verbatim>\<open>str\<close> is a byte string, modelled as \<^typ>\<open>string\<close>. Every exception the function can
  raise is a value of \<open>error\<close>, carrying the message of the \<^verbatim>\<open>raise\<close> statement (or the
  missing key of a \<^verbatim>\<open>KeyError\<close>), so that two raises of one class stay distinguishable.
\<close>

datatype error =
    TypeError string
  | ImportError string
  | KeyError string
  | ValueError string
  | IndexError string
  | IOError string

text \<open>The class of an exception, without its message.\<close>

datatype error_class = TypeErrorC | ImportErrorC | KeyErrorC | ValueErrorC | IndexErrorC | IOErrorC

fun class_of :: "error \<Rightarrow> error_class" where
  "class_of (TypeError m) = TypeErrorC"
| "class_of (ImportError m) = ImportErrorC"
| "class_of (KeyError m) = KeyErrorC"
| "class_of (ValueError m) = ValueErrorC"
| "class_of (IndexError m) = IndexErrorC"
| "class_of (IOError m) = IOErrorC"

subsection \<open>The builtin \<^verbatim>\<open>int\<close> on a byte string\<close>

definition is_space :: "char \<Rightarrow> bool" where
  "is_space c = (c \<in> set [CHR '' '', CHR 0x09, CHR 0x0A, CHR 0x0B, CHR 0x0C, CHR 0x0D])"

definition is_digit :: "char \<Rightarrow> bool" where
  "is_digit c = (48 \<le> (of_char c :: nat) \<and> (of_char c :: nat) \<le> 57)"

definition digit_val :: "char \<Rightarrow> nat" where
  "digit_val c = of_char c - 48"

definition strip :: "string \<Rightarrow> string" where
  "strip s = rev (dropWhile is_space (rev (dropWhile is_space s)))"

definition digits_val :: "string \<Rightarrow> nat" where
  "digits_val ds = foldl (\<lambda>a c. 10 * a + digit_val c) 0 ds"

text \<open>
  \<^verbatim>\<open>int(s)\<close> in base ten: surrounding whitespace is dropped, one sign is allowed, and what is
  left must be a non-empty run of decimal digits; anything else raises \<^verbatim>\<open>ValueError\<close>.
\<close>

definition py_int :: "string \<Rightarrow> error + int" where
  "py_int s =
     (let t = strip s;
          (neg, ds) = (case t of
              c # r \<Rightarrow> if c = CHR ''-'' then (True, r) else if c = CHR ''+'' then (False, r) else (False, t)
            | [] \<Rightarrow> (False, t))
      in if ds \<noteq> [] \<and> list_all is_digit ds
         then Inr (if neg then - int (digits_val ds) else int (digits_val ds))
         else Inl (ValueError ''invalid literal for int() with base 10''))"

subsection \<open>\<^verbatim>\<open>'$P%dB' % c\<close>: a positive integer in decimal\<close>

text \<open>The decimal digit of a number below ten.\<close>

definition digit_char :: "nat \<Rightarrow> char" where
  "digit_char n = ''0123456789'' ! n"

fun str_of_nat :: "nat \<Rightarrow> string" where
  "str_of_nat n =
     (if n < 10 then [digit_char n]
      else str_of_nat (n div 10) @ [digit_char (n mod 10)])"

declare str_of_nat.simps [simp del]

definition str_of_int :: "int \<Rightarrow> string" where
  "str_of_int i = (if i < 0 then CHR ''-'' # str_of_nat (nat (- i)) else str_of_nat (nat i))"

subsection \<open>\<^verbatim>\<open>str.split(sep)\<close> with a one-byte separator, and extended slices\<close>

fun split_on :: "char \<Rightarrow> string \<Rightarrow> string list" where
  "split_on c [] = [[]]"
| "split_on c (x # xs) =
     (if x = c then [] # split_on c xs
      else (case split_on c xs of
              t # ts \<Rightarrow> (x # t) # ts
            | [] \<Rightarrow> [[x]]))"

text \<open>\<^verbatim>\<open>s.split(sep)\<close>: an empty separator raises \<^verbatim>\<open>ValueError\<close>.\<close>

definition py_split :: "string \<Rightarrow> string \<Rightarrow> error + string list" where
  "py_split s sep =
     (case sep of
        [] \<Rightarrow> Inl (ValueError ''empty separator'')
      | c # _ \<Rightarrow> Inr (split_on c s))"

text \<open>\<^verbatim>\<open>l[0::2]\<close> is \<open>step2 l\<close> and \<^verbatim>\<open>l[1::2]\<close> is \<open>step2 (drop 1 l)\<close>.\<close>

fun step2 :: "'a list \<Rightarrow> 'a list" where
  "step2 [] = []"
| "step2 [x] = [x]"
| "step2 (x # y # xs) = x # step2 xs"

text \<open>\<^verbatim>\<open>dict(pairs)\<close>: the pairs are stored from left to right.\<close>

definition py_dict :: "('k \<times> 'v) list \<Rightarrow> ('k \<rightharpoonup> 'v)" where
  "py_dict ps = foldl (\<lambda>m (k, v). m(k \<mapsto> v)) Map.empty ps"

text \<open>\<^verbatim>\<open>d[k]\<close> raises \<^verbatim>\<open>KeyError\<close> on a missing key; \<^verbatim>\<open>d.get(k)\<close> is \<open>d k\<close>.\<close>

definition getitem :: "(string \<rightharpoonup> string) \<Rightarrow> string \<Rightarrow> error + string" where
  "getitem d k = (case d k of None \<Rightarrow> Inl (KeyError k) | Some v \<Rightarrow> Inr v)"

section \<open>File objects\<close>

text \<open>
  A file object opened in mode \<^verbatim>\<open>'rb'\<close>: the bytes of the file, the position of the next
  read, and whether \<^verbatim>\<open>close()\<close> has been called on it.
\<close>

record file_obj =
  content :: string
  pos :: nat
  closed :: bool

type_synonym 'a io = "file_obj \<Rightarrow> (error + 'a) \<times> file_obj"

definition io_bind :: "'a io \<Rightarrow> ('a \<Rightarrow> 'b io) \<Rightarrow> 'b io" where
  "io_bind m k = (\<lambda>f. case m f of
       (Inl e, f') \<Rightarrow> (Inl e, f')
     | (Inr v, f') \<Rightarrow> k v f')"

definition io_return :: "'a \<Rightarrow> 'a io" where
  "io_return v = (\<lambda>f. (Inr v, f))"

definition io_lift :: "error + 'a \<Rightarrow> 'a io" where
  "io_lift r = (\<lambda>f. (r, f))"

text \<open>\<^verbatim>\<open>f.read(n)\<close>: at most \<open>n\<close> bytes from the position; everything left when \<open>n\<close> is negative.\<close>

definition f_read :: "int \<Rightarrow> string io" where
  "f_read n f =
     (if closed f then (Inl (ValueError ''I/O operation on closed file''), f)
      else let rest = drop (pos f) (content f);
               s = (if n < 0 then rest else take (nat n) rest)
           in (Inr s, f\<lparr>pos := pos f + length s\<rparr>))"

text \<open>\<^verbatim>\<open>f.seek(p)\<close>: a negative offset is refused by the operating system.\<close>

definition f_seek :: "int \<Rightarrow> unit io" where
  "f_seek p f =
     (if closed f then (Inl (ValueError ''I/O operation on closed file''), f)
      else if p < 0 then (Inl (IOError ''[Errno 22] Invalid argument''), f)
      else (Inr (), f\<lparr>pos := nat p\<rparr>))"

definition f_close :: "file_obj \<Rightarrow> file_obj" where
  "f_close f = f\<lparr>closed := True\<rparr>"

text \<open>\<^verbatim>\<open>open(name, 'rb')\<close> on a file system that maps the names of its files to their bytes.\<close>

definition py_open :: "(string \<rightharpoonup> string) \<Rightarrow> string \<Rightarrow> error + file_obj" where
  "py_open fs name =
     (case fs name of
        None \<Rightarrow> Inl (IOError ''[Errno 2] No such file or directory'')
      | Some bytes \<Rightarrow> Inr \<lparr>content = bytes, pos = 0, closed = False\<rparr>)"


text \<open>Sequencing of computations that may raise, without a file.\<close>

definition err_bind :: "error + 'a \<Rightarrow> ('a \<Rightarrow> error + 'b) \<Rightarrow> error + 'b" where
  "err_bind r k = (case r of Inl e \<Rightarrow> Inl e | Inr v \<Rightarrow> k v)"

section \<open>The decoder: \<^verbatim>\<open>TaborLabFCSFile.load_from_file\<close>\<close>

subsection \<open>HEADER section (lines 87 to 98)\<close>

text \<open>\<^verbatim>\<open>int(f.read(8))\<close>\<close>

definition read_int8 :: "int io" where
  "read_int8 = io_bind (f_read 8) (\<lambda>s. io_lift (py_int s))"

definition import_header :: "(int \<times> int \<times> int \<times> int) io" where
  "import_header =
     io_bind (f_read 10) (\<lambda>version.
       if version \<noteq> ''FCS2.0    ''
       then io_lift (Inl (TypeError ''incorrection FCS file version''))
       else
         io_bind read_int8 (\<lambda>text_begin.
         io_bind read_int8 (\<lambda>text_end.
         io_bind read_int8 (\<lambda>data_begin.
         io_bind read_int8 (\<lambda>data_end.
           io_return (text_begin, text_end, data_begin, data_end))))))"

subsection \<open>TEXT section (lines 103 to 139)\<close>

definition read_text :: "int \<Rightarrow> int \<Rightarrow> (string \<times> string) io" where
  "read_text text_begin text_end =
     io_bind (f_seek text_begin) (\<lambda>_.
     io_bind (f_read 1) (\<lambda>separator.
     io_bind (f_seek text_begin) (\<lambda>_.
     io_bind (f_read ((text_end + 1) - text_begin)) (\<lambda>text.
       io_return (separator, text)))))"

text \<open>
  Lines 117 to 137 on the list \<open>l\<close> of split tokens. \<^verbatim>\<open>l[0]\<close> and \<^verbatim>\<open>l[-1]\<close> raise
  \<^verbatim>\<open>IndexError\<close> on an empty list, and so does \<^verbatim>\<open>del l[-1]\<close> once \<^verbatim>\<open>del l[0]\<close> has emptied it.
\<close>

definition check_tokens :: "string list \<Rightarrow> error + string list" where
  "check_tokens l =
     (case l of
        [] \<Rightarrow> Inl (IndexError ''list index out of range'')
      | first # l1 \<Rightarrow>
          if first \<noteq> [] \<or> last l \<noteq> []
          then Inl (ImportError ''error parsing TEXT section'')
          else (case l1 of
                  [] \<Rightarrow> Inl (IndexError ''list assignment index out of range'')
                | _ # _ \<Rightarrow>
                    (let l2 = butlast l1 in
                     if list_ex (\<lambda>x. x = []) l2
                     then Inl (ImportError
                       ''error parsing TEXT section: delimiter used in keyword or value.'')
                     else if length l2 mod 2 \<noteq> 0
                     then Inl (ImportError ''error parsing TEXT section: odd # of key-value entries'')
                     else Inr l2)))"

definition parse_text :: "string \<Rightarrow> string \<Rightarrow> error + (string \<rightharpoonup> string)" where
  "parse_text separator text =
     err_bind (py_split text separator) (\<lambda>l.
     err_bind (check_tokens l) (\<lambda>l2.
       Inr (py_dict (zip (step2 l2) (step2 (drop 1 l2))))))"

text \<open>Everything up to line 139: the metadata mapping and the two DATA offsets.\<close>

definition import_text :: "((string \<rightharpoonup> string) \<times> int \<times> int) io" where
  "import_text =
     io_bind import_header (\<lambda>(text_begin, text_end, data_begin, data_end).
     io_bind (read_text text_begin text_end) (\<lambda>(separator, text).
     io_bind (io_lift (parse_text separator text)) (\<lambda>d.
       io_return (d, data_begin, data_end))))"

subsection \<open>The assumptions on the file (lines 142 to 159)\<close>

text \<open>\<^verbatim>\<open>[int(text['$P%dB'%c]) for c in xrange(1,num_channels+1)]\<close>, from left to right.\<close>

fun bits_per_channel :: "(string \<rightharpoonup> string) \<Rightarrow> int list \<Rightarrow> error + int list" where
  "bits_per_channel d [] = Inr []"
| "bits_per_channel d (c # cs) =
     err_bind (getitem d (''$P'' @ str_of_int c @ ''B'')) (\<lambda>s.
     err_bind (py_int s) (\<lambda>b.
     err_bind (bits_per_channel d cs) (\<lambda>bs. Inr (b # bs))))"

definition confirm_assumptions :: "(string \<rightharpoonup> string) \<Rightarrow> error + unit" where
  "confirm_assumptions d =
     err_bind (getitem d ''$DATATYPE'') (\<lambda>datatype.
     if datatype \<noteq> ''I'' then Inl (TypeError ''FCS file $DATATYPE is not I'') else
     err_bind (getitem d ''$MODE'') (\<lambda>mode.
     if mode \<noteq> ''L'' then Inl (TypeError ''FCS file $MODE is not L'') else
     err_bind (getitem d ''$BYTEORD'') (\<lambda>byteord.
     if byteord \<noteq> ''4,3,2,1'' then Inl (TypeError ''FCS file $BYTEORD is not 4,3,2,1'') else
     err_bind (getitem d ''$PAR'') (\<lambda>par.
     err_bind (py_int par) (\<lambda>num_channels.
     err_bind (bits_per_channel d [1..num_channels]) (\<lambda>bits.
     if \<not> list_all (\<lambda>b. b = 16) bits
     then Inl (TypeError
       ''channel bit width error: $PnB != 16 for all parameters (channels)'') else
     err_bind (getitem d ''$NEXTDATA'') (\<lambda>nextdata.
     if nextdata \<noteq> ''0'' then Inl (TypeError ''FCS file contains more than one data set'')
     else Inr ())))))))"

subsection \<open>Channel descriptors (lines 169 to 224)\<close>

text \<open>The values a descriptor holds: a string, an integer or \<^verbatim>\<open>None\<close>.\<close>

datatype pyval = PStr string | PInt int | PNone

text \<open>\<^verbatim>\<open>text.get(k)\<close> as a Python value.\<close>

definition get_val :: "(string \<rightharpoonup> string) \<Rightarrow> string \<Rightarrow> pyval" where
  "get_val d k = (case d k of None \<Rightarrow> PNone | Some v \<Rightarrow> PStr v)"

definition amp :: "string option \<Rightarrow> error + pyval" where
  "amp a =
     (case a of
        None \<Rightarrow> Inr PNone
      | Some s \<Rightarrow>
          if s = ''1'' then Inr (PStr ''lin'')
          else if s = ''0'' then Inr (PStr ''log'')
          else Inl (ImportError ''unrecognized amplifier setting''))"

text \<open>
  A descriptor is a dictionary with string keys, kept as the list of its items. The five
  literals \<^verbatim>\<open>ch1\<close> to \<^verbatim>\<open>ch5\<close> differ in their number and in the keys they look up only.
\<close>

type_synonym channel = "(string \<times> pyval) list"

definition ch_full ::
  "(string \<rightharpoonup> string) \<Rightarrow> int \<Rightarrow> string \<Rightarrow> string \<Rightarrow> string \<Rightarrow> string \<Rightarrow> string
     \<Rightarrow> error + channel" where
  "ch_full d number label_key pmt_key gain_key amp_key threshold_key =
     err_bind (amp (d amp_key)) (\<lambda>a.
       Inr [(''label'', get_val d label_key),
            (''number'', PInt number),
            (''pmt_voltage'', get_val d pmt_key),
            (''100x_lin_gain'', get_val d gain_key),
            (''amplifier'', a),
            (''threshold'', get_val d threshold_key)])"

definition channel_info :: "(string \<rightharpoonup> string) \<Rightarrow> error + channel list" where
  "channel_info d =
     err_bind (ch_full d 1 ''$P1N'' ''BD$WORD13'' ''BD$WORD18'' ''BD$WORD23'' ''BD$WORD29'') (\<lambda>ch1.
     err_bind (ch_full d 2 ''$P2N'' ''BD$WORD14'' ''BD$WORD19'' ''BD$WORD24'' ''BD$WORD30'') (\<lambda>ch2.
     err_bind (ch_full d 3 ''$P3N'' ''BD$WORD15'' ''BD$WORD20'' ''BD$WORD25'' ''BD$WORD31'') (\<lambda>ch3.
     err_bind (ch_full d 4 ''$P4N'' ''BD$WORD16'' ''BD$WORD21'' ''BD$WORD26'' ''BD$WORD32'') (\<lambda>ch4.
     err_bind (ch_full d 5 ''$P5N'' ''BD$WORD17'' ''BD$WORD22'' ''BD$WORD27'' ''BD$WORD33'') (\<lambda>ch5.
       (let ch6 = [(''label'', get_val d ''$P6N''), (''number'', PInt 6)]
        in Inr [ch1, ch2, ch3, ch4, ch5, ch6]))))))"

subsection \<open>DATA section (lines 229 to 249)\<close>

text \<open>
  The array read from the file: its shape and its rows. The element type \<^verbatim>\<open>'>u2'\<close> is a
  big-endian unsigned integer of two bytes.
\<close>

record ndarray =
  shape :: "nat \<times> nat"
  rows :: "16 word list list"

fun decode_u2 :: "string \<Rightarrow> 16 word list" where
  "decode_u2 (hi # lo # bs) = word_of_nat (256 * of_char hi + of_char lo) # decode_u2 bs"
| "decode_u2 bs = []"

text \<open>Row-major order: \<open>n\<close> rows of \<open>d\<close> values each.\<close>

fun chunks :: "nat \<Rightarrow> nat \<Rightarrow> 'a list \<Rightarrow> 'a list list" where
  "chunks 0 d xs = []"
| "chunks (Suc n) d xs = take d xs # chunks n d (drop d xs)"

text \<open>
  \<^verbatim>\<open>np.array(np.memmap(f, dtype='>u2', mode='r', offset=..., shape=..., order='C'))\<close>.
  The library measures the file by seeking to its end, maps \<open>offset + size * 2\<close> bytes of it
  and views them as an array of the shape; it raises \<^verbatim>\<open>ValueError\<close> for a negative dimension
  and for a file shorter than the mapped bytes, and the operating system refuses a negative
  offset.
\<close>

definition np_memmap :: "int \<Rightarrow> int \<times> int \<Rightarrow> ndarray io" where
  "np_memmap offset shp f =
     (if closed f then (Inl (ValueError ''I/O operation on closed file''), f)
      else
        (let f' = f\<lparr>pos := length (content f)\<rparr>;
             (n, d) = shp;
             nbytes = n * d * 2
         in if n < 0 \<or> d < 0
            then (Inl (ValueError ''negative dimensions are not allowed''), f')
            else if offset < 0
            then (Inl (ValueError ''memory mapped offset must be positive''), f')
            else if int (length (content f)) < offset + nbytes
            then (Inl (ValueError ''mmap length is greater than file size''), f')
            else (Inr \<lparr>shape = (nat n, nat d),
                       rows = chunks (nat n) (nat d)
                         (decode_u2 (take (nat nbytes) (drop (nat offset) (content f))))\<rparr>,
                  f')))"

definition import_data :: "(string \<rightharpoonup> string) \<Rightarrow> int \<Rightarrow> int \<Rightarrow> ndarray io" where
  "import_data d data_begin data_end =
     io_bind (io_lift (err_bind (getitem d ''$TOT'') py_int)) (\<lambda>tot.
     io_bind (io_lift (err_bind (getitem d ''$PAR'') py_int)) (\<lambda>par.
       if tot * par * 2 \<noteq> (data_end + 1) - data_begin
       then io_lift (Inl (ImportError ''DATA size does not match expected array size''))
       else np_memmap data_begin (tot, par)))"

subsection \<open>The whole function\<close>

type_synonym fcs = "ndarray \<times> (string \<rightharpoonup> string) \<times> channel list"

text \<open>Lines 84 to 249, on the file object \<open>f\<close>.\<close>

definition load_body :: "fcs io" where
  "load_body =
     io_bind import_text (\<lambda>(d, data_begin, data_end).
     io_bind (io_lift (confirm_assumptions d)) (\<lambda>_.
     io_bind (io_lift (channel_info d)) (\<lambda>chs.
     io_bind (import_data d data_begin data_end) (\<lambda>data.
       io_return (data, d, chs)))))"

text \<open>
  The argument is the name of a file or a file object. The function returns what it raises
  or returns, and the file object it used in the state it leaves it in (none when
  \<^verbatim>\<open>open\<close> failed). A \<^verbatim>\<open>raise\<close> leaves the function at once: line 253 is reached on the
  path that returns only.
\<close>

datatype infile = Path string | Stream file_obj

definition load_from_file ::
  "(string \<rightharpoonup> string) \<Rightarrow> infile \<Rightarrow> (error + fcs) \<times> file_obj option" where
  "load_from_file fs infile =
     (case infile of
        Path name \<Rightarrow>
          (case py_open fs name of
             Inl e \<Rightarrow> (Inl e, None)
           | Inr f \<Rightarrow>
               (case load_body f of
                  (Inl e, f') \<Rightarrow> (Inl e, Some f')
                | (Inr r, f') \<Rightarrow> (Inr r, Some (f_close f'))))
      | Stream f \<Rightarrow>
          (case load_body f of
             (Inl e, f') \<Rightarrow> (Inl e, Some f')
           | (Inr r, f') \<Rightarrow> (Inr r, Some f')))"

text \<open>
  Two properties of a computation on a file object, used to follow the object through the
  function: it leaves the bytes and the \<open>closed\<close> flag as they were, and it returns a value
  on an open file only.
\<close>

definition keeps :: "'a io \<Rightarrow> bool" where
  "keeps m = (\<forall>f r f'. m f = (r, f') \<longrightarrow> closed f' = closed f \<and> content f' = content f)"


section \<open>The gates\<close>

text \<open>
  The module \<^verbatim>\<open>fc/gate.py\<close> is not among the source files; its unit tests
  \<^verbatim>\<open>src/test/test_gate.py\<close> are. The three gates are therefore written from the
  specification, and the fixtures of the tests are evaluated against them below. A matrix is
  the list of its rows. A gate returns the gated matrix together with its mask; without
  \<^verbatim>\<open>full_output\<close> the caller receives the \<open>gated_data\<close> field alone.
\<close>

text \<open>
  Modelled from the spec: the GateResult of section 3, the gated matrix paired with a mask
  that is True at the retained rows.
\<close>

record 'a gate_result =
  gated_data :: "'a list list"
  mask :: "bool list"

text \<open>
  Modelled from the spec: the restriction of a matrix to the rows where the mask is True,
  in their order (section 3, the invariant of GateResult).
\<close>

definition apply_mask :: "bool list \<Rightarrow> 'a list \<Rightarrow> 'a list" where
  "apply_mask m xs = map snd (filter fst (zip m xs))"

text \<open>
  Modelled from the spec: \<^verbatim>\<open>start_end\<close> of \<^verbatim>\<open>fc/gate.py\<close> is missing. Section 4.3 (a):
  the gate drops the first \<open>num_start\<close> and the last \<open>num_end\<close> rows, fails with
  \<^verbatim>\<open>ValueError\<close> if \<open>num_start + num_end\<close> exceeds the row count, and its mask is a block of
  False at the head (length \<open>num_start\<close>) and at the tail (length \<open>num_end\<close>), True elsewhere.
\<close>

definition start_end :: "'a list list \<Rightarrow> nat \<Rightarrow> nat \<Rightarrow> error + 'a gate_result" where
  "start_end data num_start num_end =
     (if num_start + num_end > length data
      then Inl (ValueError ''num_start + num_end exceeds the row count'')
      else
        (let m = replicate num_start False
                 @ replicate (length data - num_start - num_end) True
                 @ replicate num_end False
         in Inr \<lparr>gated_data = apply_mask m data, mask = m\<rparr>))"

text \<open>
  Modelled from the spec: the bounds of section 4.3 (b). The interval is open at both ends
  ("strict open interval"), and a bound that was omitted admits every value ("omission of
  bounds a no-op").
\<close>

definition in_range :: "'a::linorder option \<Rightarrow> 'a option \<Rightarrow> 'a \<Rightarrow> bool" where
  "in_range low high v =
     ((case low of None \<Rightarrow> True | Some l \<Rightarrow> l < v)
      \<and> (case high of None \<Rightarrow> True | Some h \<Rightarrow> v < h))"

text \<open>
  Modelled from the spec: \<^verbatim>\<open>high_low\<close> of \<^verbatim>\<open>fc/gate.py\<close> is missing. Section 4.3 (b):
  a row is retained when its value on every selected channel lies in the open interval
  \<open>low < value < high\<close>; an empty selection means all channels; the default bounds admit
  the full range of values. Section 4.2: a channel index outside \<open>[0, D)\<close> fails with
  \<^verbatim>\<open>ValueError\<close>.
\<close>

definition high_low ::
  "'a::linorder list list \<Rightarrow> nat list \<Rightarrow> 'a option \<Rightarrow> 'a option \<Rightarrow> error + 'a gate_result" where
  "high_low data channels low high =
     (if list_ex (\<lambda>r. list_ex (\<lambda>c. length r \<le> c) channels) data
      then Inl (ValueError ''channel index out of range'')
      else
        (let m = map (\<lambda>r. if channels = [] then list_all (in_range low high) r
                           else list_all (\<lambda>c. in_range low high (r ! c)) channels) data
         in Inr \<lparr>gated_data = apply_mask m data, mask = m\<rparr>))"

text \<open>
  Modelled from the spec: step 4 of section 4.3 (c), the selection rule of the density gate.
  The scores are sorted in descending order; the threshold is the first score of that order
  for which the number of events scoring at or above it is at least \<open>gate_fraction * N\<close>.
  It is the smallest score of the retained events, which are "the minimal set of
  highest-density events" whose count reaches \<open>gate_fraction * N\<close>.
\<close>

definition count_at_or_above :: "'s::linorder list \<Rightarrow> 's \<Rightarrow> nat" where
  "count_at_or_above scores t = length (filter (\<lambda>s. t \<le> s) scores)"

definition threshold :: "'s::linorder list \<Rightarrow> real \<Rightarrow> 's option" where
  "threshold scores gate_fraction =
     find (\<lambda>t. gate_fraction * real (length scores) \<le> real (count_at_or_above scores t))
       (rev (sort scores))"

text \<open>
  Modelled from the spec: \<^verbatim>\<open>density2d\<close> of \<^verbatim>\<open>fc/gate.py\<close> is missing. Section 4.3 (c).
  The specification leaves the density estimate open (bandwidth rule, grid and lookup are
  "not observable"), so it is the parameter \<open>kde\<close>: from the projected events and the grid
  resolution \<open>bins\<close> to the score of an event. The gate projects the events onto the two
  channels, scores every event, and its mask holds the events scoring at or above the
  threshold, ties included. It fails with \<^verbatim>\<open>ValueError\<close> unless exactly two channels are
  selected and \<open>gate_fraction\<close> lies in \<open>(0, 1]\<close>.
\<close>

definition density2d ::
  "(('a \<times> 'a) list \<Rightarrow> nat \<Rightarrow> 'a \<times> 'a \<Rightarrow> 's::linorder) \<Rightarrow> nat
     \<Rightarrow> 'a list list \<Rightarrow> nat list \<Rightarrow> real \<Rightarrow> error + 'a gate_result" where
  "density2d kde bins data channels gate_fraction =
     (if length channels \<noteq> 2 \<or> list_ex (\<lambda>r. list_ex (\<lambda>c. length r \<le> c) channels) data
      then Inl (ValueError ''channel selection does not resolve to exactly two channels'')
      else if \<not> (0 < gate_fraction \<and> gate_fraction \<le> 1)
      then Inl (ValueError ''gate_fraction not in (0, 1]'')
      else
        (let points = map (\<lambda>r. (r ! (channels ! 0), r ! (channels ! 1))) data;
             scores = map (kde points bins) points;
             m = (case threshold scores gate_fraction of
                    None \<Rightarrow> map (\<lambda>s. False) scores
                  | Some t \<Rightarrow> map (\<lambda>s. t \<le> s) scores)
         in Inr \<lparr>gated_data = apply_mask m data, mask = m\<rparr>))"

section \<open>Example inputs\<close>

text \<open>
  Files used to evaluate the decoder. Each one is a header of 42 bytes (the version tag and
  the four offsets), a TEXT region delimited by \<open>/\<close> and a DATA region. \<open>ex_good\<close> declares
  one channel and two events and passes every check; each of the others breaks one of them.
\<close>

definition ex_good :: file_obj where
  "ex_good = \<lparr>content = ''FCS2.0          42     113     114     117/$DATATYPE/I/$MODE/L/$BYTEORD/4,3,2,1/$PAR/1/$P1B/16/$NEXTDATA/0/$TOT/2/ABCD'',
     pos = 0, closed = False\<rparr>"

definition ex_version :: file_obj where
  "ex_version = \<lparr>content = ''FCS3.0          42     113     114     117/$DATATYPE/I/$MODE/L/$BYTEORD/4,3,2,1/$PAR/1/$P1B/16/$NEXTDATA/0/$TOT/2/ABCD'',
     pos = 0, closed = False\<rparr>"

definition ex_unclosed :: file_obj where
  "ex_unclosed = \<lparr>content = ''FCS2.0          42      48      49      48/$TOT/2'',
     pos = 0, closed = False\<rparr>"

definition ex_delimiter :: file_obj where
  "ex_delimiter = \<lparr>content = ''FCS2.0          42      50      51      50/$TOT//2/'',
     pos = 0, closed = False\<rparr>"

definition ex_odd :: file_obj where
  "ex_odd = \<lparr>content = ''FCS2.0          42      51      52      51/$TOT/2/x/'',
     pos = 0, closed = False\<rparr>"

definition ex_datatype :: file_obj where
  "ex_datatype = \<lparr>content = ''FCS2.0          42      54      55      54/$DATATYPE/F/'',
     pos = 0, closed = False\<rparr>"

definition ex_mode :: file_obj where
  "ex_mode = \<lparr>content = ''FCS2.0          42      62      63      62/$DATATYPE/I/$MODE/C/'',
     pos = 0, closed = False\<rparr>"

definition ex_byteord :: file_obj where
  "ex_byteord = \<lparr>content = ''FCS2.0          42      79      80      79/$DATATYPE/I/$MODE/L/$BYTEORD/1,2,3,4/'',
     pos = 0, closed = False\<rparr>"

definition ex_bits :: file_obj where
  "ex_bits = \<lparr>content = ''FCS2.0          42      93      94      93/$DATATYPE/I/$MODE/L/$BYTEORD/4,3,2,1/$PAR/1/$P1B/8/'',
     pos = 0, closed = False\<rparr>"

definition ex_nextdata :: file_obj where
  "ex_nextdata = \<lparr>content = ''FCS2.0          42     108     109     108/$DATATYPE/I/$MODE/L/$BYTEORD/4,3,2,1/$PAR/1/$P1B/16/$NEXTDATA/118/'',
     pos = 0, closed = False\<rparr>"

definition ex_size :: file_obj where
  "ex_size = \<lparr>content = ''FCS2.0          42     113     114     117/$DATATYPE/I/$MODE/L/$BYTEORD/4,3,2,1/$PAR/1/$P1B/16/$NEXTDATA/0/$TOT/3/ABCD'',
     pos = 0, closed = False\<rparr>"

definition ex_no_datatype :: file_obj where
  "ex_no_datatype = \<lparr>content = ''FCS2.0          42     101     102     105/$MODE/L/$BYTEORD/4,3,2,1/$PAR/1/$P1B/16/$NEXTDATA/0/$TOT/2/ABCD'',
     pos = 0, closed = False\<rparr>"

definition ex_no_mode :: file_obj where
  "ex_no_mode = \<lparr>content = ''FCS2.0          42     105     106     109/$DATATYPE/I/$BYTEORD/4,3,2,1/$PAR/1/$P1B/16/$NEXTDATA/0/$TOT/2/ABCD'',
     pos = 0, closed = False\<rparr>"

definition ex_no_byteord :: file_obj where
  "ex_no_byteord = \<lparr>content = ''FCS2.0          42      96      97     100/$DATATYPE/I/$MODE/L/$PAR/1/$P1B/16/$NEXTDATA/0/$TOT/2/ABCD'',
     pos = 0, closed = False\<rparr>"

definition ex_no_par :: file_obj where
  "ex_no_par = \<lparr>content = ''FCS2.0          42     106     107     110/$DATATYPE/I/$MODE/L/$BYTEORD/4,3,2,1/$P1B/16/$NEXTDATA/0/$TOT/2/ABCD'',
     pos = 0, closed = False\<rparr>"

definition ex_no_pnb :: file_obj where
  "ex_no_pnb = \<lparr>content = ''FCS2.0          42     105     106     109/$DATATYPE/I/$MODE/L/$BYTEORD/4,3,2,1/$PAR/1/$NEXTDATA/0/$TOT/2/ABCD'',
     pos = 0, closed = False\<rparr>"

definition ex_no_nextdata :: file_obj where
  "ex_no_nextdata = \<lparr>content = ''FCS2.0          42     101     102     105/$DATATYPE/I/$MODE/L/$BYTEORD/4,3,2,1/$PAR/1/$P1B/16/$TOT/2/ABCD'',
     pos = 0, closed = False\<rparr>"

definition ex_no_tot :: file_obj where
  "ex_no_tot = \<lparr>content = ''FCS2.0          42     106     107     110/$DATATYPE/I/$MODE/L/$BYTEORD/4,3,2,1/$PAR/1/$P1B/16/$NEXTDATA/0/ABCD'',
     pos = 0, closed = False\<rparr>"

definition ex_channels :: "channel list" where
  "ex_channels =
     [[(''label'', PNone), (''number'', PInt 1), (''pmt_voltage'', PNone),
       (''100x_lin_gain'', PNone), (''amplifier'', PNone), (''threshold'', PNone)],
      [(''label'', PNone), (''number'', PInt 2), (''pmt_voltage'', PNone),
       (''100x_lin_gain'', PNone), (''amplifier'', PNone), (''threshold'', PNone)],
      [(''label'', PNone), (''number'', PInt 3), (''pmt_voltage'', PNone),
       (''100x_lin_gain'', PNone), (''amplifier'', PNone), (''threshold'', PNone)],
      [(''label'', PNone), (''number'', PInt 4), (''pmt_voltage'', PNone),
       (''100x_lin_gain'', PNone), (''amplifier'', PNone), (''threshold'', PNone)],
      [(''label'', PNone), (''number'', PInt 5), (''pmt_voltage'', PNone),
       (''100x_lin_gain'', PNone), (''amplifier'', PNone), (''threshold'', PNone)],
      [(''label'', PNone), (''number'', PInt 6)]]"

definition ex_good_meta :: "string \<rightharpoonup> string" where
  "ex_good_meta = py_dict [(''$DATATYPE'', ''I''), (''$MODE'', ''L''), (''$BYTEORD'', ''4,3,2,1''), (''$PAR'', ''1''), (''$P1B'', ''16''), (''$NEXTDATA'', ''0''), (''$TOT'', ''2'')]"

definition ex_size_meta :: "string \<rightharpoonup> string" where
  "ex_size_meta = py_dict [(''$DATATYPE'', ''I''), (''$MODE'', ''L''), (''$BYTEORD'', ''4,3,2,1''), (''$PAR'', ''1''), (''$P1B'', ''16''), (''$NEXTDATA'', ''0''), (''$TOT'', ''3'')]"

definition ex_fs :: "string \<rightharpoonup> string" where
  "ex_fs = [''Data001.fcs'' \<mapsto> content ex_good, ''broken.fcs'' \<mapsto> content ex_version]"

text \<open>
  The matrices of \<^verbatim>\<open>src/test/test_gate.py\<close>: \<^verbatim>\<open>self.d\<close> of \<^verbatim>\<open>TestStartEndGate\<close> (the same
  matrix is \<^verbatim>\<open>self.d2\<close> of \<^verbatim>\<open>TestHighLowGate\<close>) and the column \<^verbatim>\<open>self.d1\<close>.
\<close>

definition test_d :: "int list list" where
  "test_d =
     [[1, 7, 2], [2, 8, 3], [3, 9, 4], [4, 10, 5], [5, 1, 6],
      [6, 2, 7], [7, 3, 8], [8, 4, 9], [9, 5, 10], [10, 6, 1]]"

definition test_d1 :: "int list list" where
  "test_d1 = [[1], [2], [3], [4], [5], [6], [7], [8], [9], [10]]"

text \<open>
  A density estimate for evaluating the density gate: the score of an event is the number of
  events in its own cell, with one cell per distinct point.
\<close>

definition ex_kde :: "(int \<times> int) list \<Rightarrow> nat \<Rightarrow> int \<times> int \<Rightarrow> nat" where
  "ex_kde points bins p = length (filter (\<lambda>q. q = p) points)"

definition ex_events :: "int list list" where
  "ex_events = [[1, 1], [1, 1], [2, 2], [3, 3]]"

section \<open>Properties of the decoder and of the gates\<close>

subsection \<open>Unfolding the stages of the decoder\<close>

lemma split_on_not_Nil: "split_on c s \<noteq> []"
  by (induction s) (auto split: list.splits)

lemma py_split_not_Nil: "py_split region sep = Inr l \<Longrightarrow> l \<noteq> []"
  by (auto simp: py_split_def split_on_not_Nil split: list.splits)

lemma io_bind_fst:
  "fst (io_bind m k f) =
     (case fst (m f) of Inl e \<Rightarrow> Inl e | Inr v \<Rightarrow> fst (k v (snd (m f))))"
  by (simp add: io_bind_def split: prod.splits sum.splits)

lemma io_lift_fst: "fst (io_lift r f) = r"
  by (simp add: io_lift_def)

lemma io_return_fst: "fst (io_return v f) = Inr v"
  by (simp add: io_return_def)

lemma import_text_unfold:
  assumes "fst (import_header f) = Inr (tb, te, db, de)"
      and "fst (read_text tb te (snd (import_header f))) = Inr (sep, region)"
  shows "fst (import_text f) =
           (case parse_text sep region of
              Inl e \<Rightarrow> Inl e
            | Inr d \<Rightarrow> Inr (d, db, de))"
  using assms
  by (simp add: import_text_def io_bind_fst io_lift_fst io_return_fst split: sum.splits)

lemma load_body_text_error:
  "fst (import_text f) = Inl e \<Longrightarrow> fst (load_body f) = Inl e"
  by (simp add: load_body_def io_bind_fst)

lemma load_body_unfold:
  assumes "fst (import_text f) = Inr (d, db, de)"
  shows "fst (load_body f) =
           (case confirm_assumptions d of
              Inl e \<Rightarrow> Inl e
            | Inr u \<Rightarrow>
               (case channel_info d of
                  Inl e \<Rightarrow> Inl e
                | Inr chs \<Rightarrow>
                    (case fst (import_data d db de (snd (import_text f))) of
                       Inl e \<Rightarrow> Inl e
                     | Inr data \<Rightarrow> Inr (data, d, chs))))"
  using assms
  by (simp add: load_body_def io_bind_fst io_lift_fst io_return_fst io_lift_def
      split: sum.splits)

lemma load_from_file_Stream: "fst (load_from_file fs (Stream f)) = fst (load_body f)"
  by (simp add: load_from_file_def split: prod.splits sum.splits)

lemma parse_text_unfold:
  "py_split region sep = Inr l \<Longrightarrow>
   parse_text sep region =
     (case check_tokens l of
        Inl e \<Rightarrow> Inl e
      | Inr l2 \<Rightarrow> Inr (py_dict (zip (step2 l2) (step2 (drop 1 l2)))))"
  by (simp add: parse_text_def err_bind_def split: sum.splits)

lemma check_tokens_cases:
  assumes "l \<noteq> []"
  shows "check_tokens l =
     (if hd l \<noteq> [] \<or> last l \<noteq> [] then Inl (ImportError ''error parsing TEXT section'')
      else if tl l = [] then Inl (IndexError ''list assignment index out of range'')
      else if list_ex (\<lambda>x. x = []) (butlast (tl l))
      then Inl (ImportError ''error parsing TEXT section: delimiter used in keyword or value.'')
      else if odd (length (butlast (tl l)))
      then Inl (ImportError ''error parsing TEXT section: odd # of key-value entries'')
      else Inr (butlast (tl l)))"
  using assms
  by (cases l) (auto simp: check_tokens_def Let_def odd_iff_mod_2_eq_one split: list.splits)

text \<open>Which errors the later stages raise.\<close>

lemma py_int_error: "py_int s = Inl e \<Longrightarrow> class_of e = ValueErrorC"
  by (auto simp: py_int_def Let_def split: if_splits prod.splits)

lemma getitem_error: "getitem d k = Inl e \<Longrightarrow> class_of e = KeyErrorC"
  by (auto simp: getitem_def split: option.splits)

lemma bits_per_channel_error:
  "bits_per_channel d cs = Inl e \<Longrightarrow> class_of e = KeyErrorC \<or> class_of e = ValueErrorC"
  by (induction cs arbitrary: e)
     (auto simp: err_bind_def split: sum.splits dest: py_int_error getitem_error)

lemma confirm_assumptions_error:
  "confirm_assumptions d = Inl e \<Longrightarrow>
     class_of e = KeyErrorC \<or> class_of e = ValueErrorC \<or> class_of e = TypeErrorC"
  by (auto simp: confirm_assumptions_def err_bind_def
      split: sum.splits if_splits dest: py_int_error getitem_error bits_per_channel_error)

lemma amp_error: "amp a = Inl e \<Longrightarrow> e = ImportError ''unrecognized amplifier setting''"
  by (auto simp: amp_def split: option.splits if_splits)

lemma channel_info_error:
  "channel_info d = Inl e \<Longrightarrow> e = ImportError ''unrecognized amplifier setting''"
  by (auto simp: channel_info_def ch_full_def err_bind_def Let_def
      split: sum.splits dest: amp_error)

lemma np_memmap_error: "fst (np_memmap off shp f) = Inl e \<Longrightarrow> class_of e = ValueErrorC"
  by (auto simp: np_memmap_def Let_def split: if_splits prod.splits)

lemma import_data_error:
  "fst (import_data d db de f) = Inl e \<Longrightarrow>
     e = ImportError ''DATA size does not match expected array size''
     \<or> class_of e = KeyErrorC \<or> class_of e = ValueErrorC"
  by (auto simp: import_data_def io_bind_fst io_lift_fst io_lift_def err_bind_def
      split: sum.splits if_splits
      dest: py_int_error getitem_error np_memmap_error)

lemma load_body_after_text_error:
  assumes "fst (import_text f) = Inr (d, db, de)" and "fst (load_body f) = Inl e"
  shows "e = ImportError ''unrecognized amplifier setting''
       \<or> e = ImportError ''DATA size does not match expected array size''
       \<or> class_of e = KeyErrorC \<or> class_of e = ValueErrorC \<or> class_of e = TypeErrorC"
  using assms(2) unfolding load_body_unfold [OF assms(1)]
  by (auto split: sum.splits
      dest: confirm_assumptions_error channel_info_error import_data_error)

subsection \<open>Tokens, the metadata mapping and the file object\<close>

lemma import_text_tokens:
  assumes hdr: "fst (import_header f) = Inr (tb, te, db, de)"
      and rd: "fst (read_text tb te (snd (import_header f))) = Inr (sep, region)"
      and spl: "py_split region sep = Inr l"
  shows "fst (import_text f) =
     (if hd l \<noteq> [] \<or> last l \<noteq> [] then Inl (ImportError ''error parsing TEXT section'')
      else if tl l = [] then Inl (IndexError ''list assignment index out of range'')
      else if list_ex (\<lambda>x. x = []) (butlast (tl l))
      then Inl (ImportError ''error parsing TEXT section: delimiter used in keyword or value.'')
      else if odd (length (butlast (tl l)))
      then Inl (ImportError ''error parsing TEXT section: odd # of key-value entries'')
      else Inr (py_dict (zip (step2 (butlast (tl l))) (step2 (drop 1 (butlast (tl l))))),
                db, de))"
proof -
  have ne: "l \<noteq> []" using spl by (rule py_split_not_Nil)
  show ?thesis
    unfolding import_text_unfold [OF hdr rd] parse_text_unfold [OF spl]
      check_tokens_cases [OF ne]
    by simp
qed

lemma odd_length_butlast_tl: "odd (length (butlast (tl l))) \<Longrightarrow> tl l \<noteq> []"
  by (cases "tl l") auto

lemma list_ex_butlast_tl: "list_ex P (butlast (tl l)) \<Longrightarrow> tl l \<noteq> []"
  by (cases "tl l") auto









text \<open>Reading and seeking neither close the file nor change its bytes.\<close>

lemma keepsD: "keeps m \<Longrightarrow> m f = (r, f') \<Longrightarrow> closed f' = closed f \<and> content f' = content f"
  unfolding keeps_def by blast

lemma keeps_bind:
  assumes "keeps m" and "\<And>v. keeps (k v)"
  shows "keeps (io_bind m k)"
  unfolding keeps_def
proof (intro allI impI)
  fix f r f'
  assume b: "io_bind m k f = (r, f')"
  obtain r1 f1 where m: "m f = (r1, f1)" by (cases "m f")
  note k1 = keepsD [OF assms(1) m]
  show "closed f' = closed f \<and> content f' = content f"
  proof (cases r1)
    case (Inl e)
    with b m k1 show ?thesis by (simp add: io_bind_def)
  next
    case (Inr v)
    with b m have "k v f1 = (r, f')" by (simp add: io_bind_def)
    from keepsD [OF assms(2) this] k1 show ?thesis by simp
  qed
qed

lemma keeps_lift: "keeps (io_lift r)"
  by (simp add: keeps_def io_lift_def)

lemma keeps_return: "keeps (io_return v)"
  by (simp add: keeps_def io_return_def)

lemma keeps_read: "keeps (f_read n)"
  by (auto simp: keeps_def f_read_def Let_def split: if_splits)

lemma keeps_seek: "keeps (f_seek p)"
  by (auto simp: keeps_def f_seek_def split: if_splits)

lemma keeps_memmap: "keeps (np_memmap off shp)"
  by (auto simp: keeps_def np_memmap_def Let_def split: if_splits prod.splits)

lemmas keeps_intros = keeps_bind keeps_lift keeps_return keeps_read keeps_seek keeps_memmap

lemma keeps_read_int8: "keeps read_int8"
  unfolding read_int8_def by (intro keeps_intros)

lemma keeps_import_header: "keeps import_header"
  unfolding import_header_def
  by (intro keeps_bind keeps_read) (auto intro!: keeps_intros keeps_read_int8)

lemma keeps_read_text: "keeps (read_text tb te)"
  unfolding read_text_def by (intro keeps_intros)

lemma keeps_import_text: "keeps import_text"
  unfolding import_text_def
  by (intro keeps_bind keeps_import_header)
     (auto intro!: keeps_intros keeps_read_text)

lemma keeps_import_data: "keeps (import_data d db de)"
  unfolding import_data_def
  by (intro keeps_bind keeps_lift) (auto intro!: keeps_intros)

lemma keeps_load_body: "keeps load_body"
  unfolding load_body_def
  by (intro keeps_bind keeps_import_text)
     (auto intro!: keeps_intros keeps_import_data)









subsection \<open>The TEXT section and the DATA section\<close>

text \<open>
  Claim C7. With \<open>l\<close> the list of tokens that splitting the TEXT region on its own first byte
  gives: the decoder raises \<^verbatim>\<open>ImportError\<close> when the first or the last token is not empty,
  when a token between them is empty, and when the number of tokens between them is odd. A
  region that passes the three checks is not rejected by any of them: the metadata mapping
  is built from the tokens in between (a region of no byte at all passes them too, and then
  \<^verbatim>\<open>del l[-1]\<close> raises \<^verbatim>\<open>IndexError\<close>).
\<close>
theorem text_structure_checks:
  assumes hdr: "fst (import_header f) = Inr (tb, te, db, de)"
      and rd: "fst (read_text tb te (snd (import_header f))) = Inr (sep, region)"
      and spl: "py_split region sep = Inr l"
  shows "(hd l \<noteq> [] \<or> last l \<noteq> [] \<longrightarrow>
            fst (load_from_file fs (Stream f)) = Inl (ImportError ''error parsing TEXT section''))
       \<and> (hd l = [] \<and> last l = [] \<and> list_ex (\<lambda>x. x = []) (butlast (tl l)) \<longrightarrow>
            fst (load_from_file fs (Stream f)) =
              Inl (ImportError ''error parsing TEXT section: delimiter used in keyword or value.''))
       \<and> (hd l = [] \<and> last l = [] \<and> \<not> list_ex (\<lambda>x. x = []) (butlast (tl l))
            \<and> odd (length (butlast (tl l))) \<longrightarrow>
            fst (load_from_file fs (Stream f)) =
              Inl (ImportError ''error parsing TEXT section: odd # of key-value entries''))
       \<and> (hd l = [] \<and> last l = [] \<and> \<not> list_ex (\<lambda>x. x = []) (butlast (tl l))
            \<and> even (length (butlast (tl l))) \<longrightarrow>
            fst (import_text f) =
              (if tl l = [] then Inl (IndexError ''list assignment index out of range'')
               else Inr (py_dict (zip (step2 (butlast (tl l))) (step2 (drop 1 (butlast (tl l))))),
                         db, de))
            \<and> fst (load_from_file fs (Stream f)) \<notin>
                Inl ` ImportError ` {''error parsing TEXT section'',
                  ''error parsing TEXT section: delimiter used in keyword or value.'',
                  ''error parsing TEXT section: odd # of key-value entries''})"
proof -
  note it = import_text_tokens [OF hdr rd spl]
  have c1: "fst (load_from_file fs (Stream f)) = Inl (ImportError ''error parsing TEXT section'')"
    if "hd l \<noteq> [] \<or> last l \<noteq> []"
  proof -
    have "fst (import_text f) = Inl (ImportError ''error parsing TEXT section'')"
      using that by (simp add: it)
    then show ?thesis by (simp add: load_from_file_Stream load_body_text_error)
  qed
  have c2: "fst (load_from_file fs (Stream f)) =
        Inl (ImportError ''error parsing TEXT section: delimiter used in keyword or value.'')"
    if a: "hd l = [] \<and> last l = [] \<and> list_ex (\<lambda>x. x = []) (butlast (tl l))"
  proof -
    from a have "tl l \<noteq> []" by (blast dest: list_ex_butlast_tl)
    with a have "fst (import_text f) =
        Inl (ImportError ''error parsing TEXT section: delimiter used in keyword or value.'')"
      by (simp add: it)
    then show ?thesis by (simp add: load_from_file_Stream load_body_text_error)
  qed
  have c3: "fst (load_from_file fs (Stream f)) =
        Inl (ImportError ''error parsing TEXT section: odd # of key-value entries'')"
    if a: "hd l = [] \<and> last l = [] \<and> \<not> list_ex (\<lambda>x. x = []) (butlast (tl l))
            \<and> odd (length (butlast (tl l)))"
  proof -
    from a have "tl l \<noteq> []" by (blast dest: odd_length_butlast_tl)
    with a have "fst (import_text f) =
        Inl (ImportError ''error parsing TEXT section: odd # of key-value entries'')"
      by (simp add: it)
    then show ?thesis by (simp add: load_from_file_Stream load_body_text_error)
  qed
  have c4: "fst (import_text f) =
        (if tl l = [] then Inl (IndexError ''list assignment index out of range'')
         else Inr (py_dict (zip (step2 (butlast (tl l))) (step2 (drop 1 (butlast (tl l))))),
                   db, de))
      \<and> fst (load_from_file fs (Stream f)) \<notin>
          Inl ` ImportError ` {''error parsing TEXT section'',
            ''error parsing TEXT section: delimiter used in keyword or value.'',
            ''error parsing TEXT section: odd # of key-value entries''}"
    if a: "hd l = [] \<and> last l = [] \<and> \<not> list_ex (\<lambda>x. x = []) (butlast (tl l))
            \<and> even (length (butlast (tl l)))"
  proof -
    have i: "fst (import_text f) =
        (if tl l = [] then Inl (IndexError ''list assignment index out of range'')
         else Inr (py_dict (zip (step2 (butlast (tl l))) (step2 (drop 1 (butlast (tl l))))),
                   db, de))"
      using a by (simp add: it)
    have "fst (load_body f) \<notin>
          Inl ` ImportError ` {''error parsing TEXT section'',
            ''error parsing TEXT section: delimiter used in keyword or value.'',
            ''error parsing TEXT section: odd # of key-value entries''}"
    proof (cases "tl l = []")
      case True
      with i have "fst (load_body f) = Inl (IndexError ''list assignment index out of range'')"
        by (simp add: load_body_text_error)
      then show ?thesis by auto
    next
      case False
      with i have s: "fst (import_text f) =
         Inr (py_dict (zip (step2 (butlast (tl l))) (step2 (drop 1 (butlast (tl l))))), db, de)"
        by simp
      show ?thesis
        using load_body_after_text_error [OF s] by auto
    qed
    with i show ?thesis by (simp only: load_from_file_Stream) simp
  qed
  from c1 c2 c3 c4 show ?thesis by blast
qed


lemma import_data_unfold:
  assumes "err_bind (getitem d ''$TOT'') py_int = Inr tot"
      and "err_bind (getitem d ''$PAR'') py_int = Inr par"
  shows "import_data d db de f =
           (if tot * par * 2 \<noteq> (de + 1) - db
            then (Inl (ImportError ''DATA size does not match expected array size''), f)
            else np_memmap db (tot, par) f)"
  using assms by (simp add: import_data_def io_bind_def io_lift_def)



subsection \<open>Channel descriptors and the file handle\<close>

lemma load_from_file_Inr:
  assumes "fst (load_from_file fs infile) = Inr r"
  shows "\<exists>f. fst (load_body f) = Inr r"
proof (cases infile)
  case (Path name)
  show ?thesis
  proof (cases "py_open fs name")
    case (Inl e)
    with assms Path show ?thesis by (simp add: load_from_file_def)
  next
    case (Inr f)
    with assms Path have "fst (load_body f) = Inr r"
      by (cases "load_body f") (auto simp: load_from_file_def split: sum.splits)
    then show ?thesis ..
  qed
next
  case (Stream f)
  with assms have "fst (load_body f) = Inr r" by (simp add: load_from_file_Stream)
  then show ?thesis ..
qed

lemma load_body_Inr_channels:
  assumes "fst (load_body f) = Inr (data, d, chs)"
  shows "channel_info d = Inr chs"
proof (cases "fst (import_text f)")
  case (Inl e)
  from load_body_text_error [OF this] assms show ?thesis by simp
next
  case (Inr x)
  obtain d' db de where x: "x = (d', db, de)" by (cases x)
  from assms show ?thesis
    unfolding load_body_unfold [OF Inr [unfolded x]]
    by (auto split: sum.splits)
qed

lemma ch_full_items:
  "ch_full d n lk pk gk ak tk = Inr ch \<Longrightarrow>
     map fst ch = [''label'', ''number'', ''pmt_voltage'', ''100x_lin_gain'', ''amplifier'',
                   ''threshold'']
     \<and> map_of ch ''label'' = Some (get_val d lk)
     \<and> map_of ch ''number'' = Some (PInt n)
     \<and> map_of ch ''pmt_voltage'' = Some (get_val d pk)
     \<and> map_of ch ''100x_lin_gain'' = Some (get_val d gk)
     \<and> map_of ch ''threshold'' = Some (get_val d tk)
     \<and> amp (d ak) = Inr (the (map_of ch ''amplifier''))"
  by (auto simp: ch_full_def err_bind_def split: sum.splits)

lemma channel_info_Inr:
  assumes "channel_info d = Inr chs"
  shows "\<exists>ch1 ch2 ch3 ch4 ch5.
      chs = [ch1, ch2, ch3, ch4, ch5, [(''label'', get_val d ''$P6N''), (''number'', PInt 6)]]
    \<and> ch_full d 1 ''$P1N'' ''BD$WORD13'' ''BD$WORD18'' ''BD$WORD23'' ''BD$WORD29'' = Inr ch1
    \<and> ch_full d 2 ''$P2N'' ''BD$WORD14'' ''BD$WORD19'' ''BD$WORD24'' ''BD$WORD30'' = Inr ch2
    \<and> ch_full d 3 ''$P3N'' ''BD$WORD15'' ''BD$WORD20'' ''BD$WORD25'' ''BD$WORD31'' = Inr ch3
    \<and> ch_full d 4 ''$P4N'' ''BD$WORD16'' ''BD$WORD21'' ''BD$WORD26'' ''BD$WORD32'' = Inr ch4
    \<and> ch_full d 5 ''$P5N'' ''BD$WORD17'' ''BD$WORD22'' ''BD$WORD27'' ''BD$WORD33'' = Inr ch5"
  using assms unfolding channel_info_def err_bind_def Let_def
  by (simp split: sum.splits)

lemma less_5_cases: "i < 5 \<Longrightarrow> i = 0 \<or> i = 1 \<or> i = 2 \<or> i = 3 \<or> i = (4::nat)"
  by arith

text \<open>
  Claim C2, as amended. Whatever channel count \<open>$PAR\<close> declares, the list of channel
  descriptors the decoder returns has exactly six entries: the first five hold \<open>label\<close>,
  \<open>number\<close>, \<open>pmt_voltage\<close>, \<open>100x_lin_gain\<close>, \<open>amplifier\<close> and \<open>threshold\<close>, numbered from
  one to five, and the sixth holds \<open>label\<close> and \<open>number\<close> only.
\<close>
theorem channel_info_six_descriptors:
  assumes "fst (load_from_file fs infile) = Inr (data, d, chs)"
  shows "length chs = 6
       \<and> (\<forall>i < 5. map fst (chs ! i) =
                     [''label'', ''number'', ''pmt_voltage'', ''100x_lin_gain'', ''amplifier'',
                      ''threshold'']
                 \<and> map_of (chs ! i) ''number'' = Some (PInt (int i + 1)))
       \<and> chs ! 5 = [(''label'', get_val d ''$P6N''), (''number'', PInt 6)]"
proof -
  from load_from_file_Inr [OF assms] obtain f where "fst (load_body f) = Inr (data, d, chs)" ..
  then have "channel_info d = Inr chs" by (rule load_body_Inr_channels)
  from channel_info_Inr [OF this] obtain ch1 ch2 ch3 ch4 ch5 where
    chs: "chs = [ch1, ch2, ch3, ch4, ch5, [(''label'', get_val d ''$P6N''), (''number'', PInt 6)]]"
    and c1: "ch_full d 1 ''$P1N'' ''BD$WORD13'' ''BD$WORD18'' ''BD$WORD23'' ''BD$WORD29'' = Inr ch1"
    and c2: "ch_full d 2 ''$P2N'' ''BD$WORD14'' ''BD$WORD19'' ''BD$WORD24'' ''BD$WORD30'' = Inr ch2"
    and c3: "ch_full d 3 ''$P3N'' ''BD$WORD15'' ''BD$WORD20'' ''BD$WORD25'' ''BD$WORD31'' = Inr ch3"
    and c4: "ch_full d 4 ''$P4N'' ''BD$WORD16'' ''BD$WORD21'' ''BD$WORD26'' ''BD$WORD32'' = Inr ch4"
    and c5: "ch_full d 5 ''$P5N'' ''BD$WORD17'' ''BD$WORD22'' ''BD$WORD27'' ''BD$WORD33'' = Inr ch5"
    by blast
  note items = ch_full_items [OF c1] ch_full_items [OF c2] ch_full_items [OF c3]
    ch_full_items [OF c4] ch_full_items [OF c5]
  have "map fst (chs ! i) =
          [''label'', ''number'', ''pmt_voltage'', ''100x_lin_gain'', ''amplifier'', ''threshold'']
        \<and> map_of (chs ! i) ''number'' = Some (PInt (int i + 1))" if "i < 5" for i
    using less_5_cases [OF that] items unfolding chs by (elim disjE) simp_all
  then show ?thesis unfolding chs by simp
qed

text \<open>The file object a failed call leaves behind.\<close>

lemma load_from_file_Path_error_open:
  assumes "load_from_file fs (Path name) = (Inl e, Some f')"
  shows "\<not> closed f'"
proof (cases "py_open fs name")
  case (Inl e')
  with assms show ?thesis by (simp add: load_from_file_def)
next
  case (Inr f)
  then have op: "\<not> closed f" by (auto simp: py_open_def split: option.splits)
  obtain r f1 where lb: "load_body f = (r, f1)" by (cases "load_body f")
  from keepsD [OF keeps_load_body lb] op have "\<not> closed f1" by simp
  moreover from assms Inr lb have "f' = f1"
    by (auto simp: load_from_file_def split: sum.splits)
  ultimately show ?thesis by simp
qed

lemma load_from_file_Stream_keeps:
  assumes "load_from_file fs (Stream f) = (r, Some f')"
  shows "closed f' = closed f \<and> content f' = content f"
proof -
  obtain r1 f1 where lb: "load_body f = (r1, f1)" by (cases "load_body f")
  from assms lb have "f' = f1" by (auto simp: load_from_file_def split: sum.splits)
  with keepsD [OF keeps_load_body lb] show ?thesis by simp
qed

subsection \<open>The exception classes\<close>

lemma import_header_version:
  assumes "\<not> closed f" and "take 10 (drop (pos f) (content f)) \<noteq> ''FCS2.0    ''"
  shows "fst (import_header f) = Inl (TypeError ''incorrection FCS file version'')"
  using assms
  by (simp add: import_header_def io_bind_def f_read_def Let_def io_lift_def)

lemma import_text_header_error:
  "fst (import_header f) = Inl e \<Longrightarrow> fst (import_text f) = Inl e"
  by (simp add: import_text_def io_bind_fst)

lemma confirm_datatype:
  "d ''$DATATYPE'' = Some v \<Longrightarrow> v \<noteq> ''I'' \<Longrightarrow>
     confirm_assumptions d = Inl (TypeError ''FCS file $DATATYPE is not I'')"
  by (simp add: confirm_assumptions_def err_bind_def getitem_def)

lemma confirm_mode:
  "d ''$DATATYPE'' = Some ''I'' \<Longrightarrow> d ''$MODE'' = Some v \<Longrightarrow> v \<noteq> ''L'' \<Longrightarrow>
     confirm_assumptions d = Inl (TypeError ''FCS file $MODE is not L'')"
  by (simp add: confirm_assumptions_def err_bind_def getitem_def)

lemma confirm_byteord:
  "d ''$DATATYPE'' = Some ''I'' \<Longrightarrow> d ''$MODE'' = Some ''L'' \<Longrightarrow>
   d ''$BYTEORD'' = Some v \<Longrightarrow> v \<noteq> ''4,3,2,1'' \<Longrightarrow>
     confirm_assumptions d = Inl (TypeError ''FCS file $BYTEORD is not 4,3,2,1'')"
  by (simp add: confirm_assumptions_def err_bind_def getitem_def)

lemma confirm_bits:
  "d ''$DATATYPE'' = Some ''I'' \<Longrightarrow> d ''$MODE'' = Some ''L'' \<Longrightarrow>
   d ''$BYTEORD'' = Some ''4,3,2,1'' \<Longrightarrow>
   err_bind (getitem d ''$PAR'') py_int = Inr n \<Longrightarrow>
   bits_per_channel d [1..n] = Inr bits \<Longrightarrow> \<not> list_all (\<lambda>b. b = 16) bits \<Longrightarrow>
     confirm_assumptions d =
       Inl (TypeError ''channel bit width error: $PnB != 16 for all parameters (channels)'')"
  by (auto simp: confirm_assumptions_def err_bind_def getitem_def split: sum.splits option.splits)

lemma confirm_nextdata:
  "d ''$DATATYPE'' = Some ''I'' \<Longrightarrow> d ''$MODE'' = Some ''L'' \<Longrightarrow>
   d ''$BYTEORD'' = Some ''4,3,2,1'' \<Longrightarrow>
   err_bind (getitem d ''$PAR'') py_int = Inr n \<Longrightarrow>
   bits_per_channel d [1..n] = Inr bits \<Longrightarrow> list_all (\<lambda>b. b = 16) bits \<Longrightarrow>
   d ''$NEXTDATA'' = Some v \<Longrightarrow> v \<noteq> ''0'' \<Longrightarrow>
     confirm_assumptions d = Inl (TypeError ''FCS file contains more than one data set'')"
  by (auto simp: confirm_assumptions_def err_bind_def getitem_def split: sum.splits option.splits)

lemma load_body_confirm_error:
  "fst (import_text f) = Inr (d, db, de) \<Longrightarrow> confirm_assumptions d = Inl e \<Longrightarrow>
     fst (load_body f) = Inl e"
  by (simp add: load_body_unfold)

lemma load_body_size_error:
  assumes "fst (import_text f) = Inr (d, db, de)"
      and "confirm_assumptions d = Inr ()"
      and "channel_info d = Inr chs"
      and "err_bind (getitem d ''$TOT'') py_int = Inr tot"
      and "err_bind (getitem d ''$PAR'') py_int = Inr par"
      and "tot * par * 2 \<noteq> (de + 1) - db"
  shows "fst (load_body f) = Inl (ImportError ''DATA size does not match expected array size'')"
  unfolding load_body_unfold [OF assms(1)] assms(2,3) import_data_unfold [OF assms(4,5)]
  using assms(6) by simp

text \<open>
  Claim C1, as amended. Each violation, where it is the first one the decoder meets, raises
  a builtin exception and not an exception of one dedicated class: \<^verbatim>\<open>TypeError\<close> for a
  version tag other than \<^verbatim>\<open>'FCS2.0    '\<close>, for a \<open>$DATATYPE\<close> other than \<open>I\<close>, a \<open>$MODE\<close> other
  than \<open>L\<close>, a \<open>$BYTEORD\<close> other than \<open>4,3,2,1\<close>, a \<open>$PnB\<close> other than 16 and a \<open>$NEXTDATA\<close>
  other than \<open>0\<close>; \<^verbatim>\<open>ImportError\<close> for a TEXT region that fails one of the three token checks
  and for a DATA region whose size does not match.
\<close>
theorem violations_raise_TypeError_or_ImportError:
  "(\<not> closed f \<and> take 10 (drop (pos f) (content f)) \<noteq> ''FCS2.0    '' \<longrightarrow>
      fst (load_from_file fs (Stream f)) = Inl (TypeError ''incorrection FCS file version''))
   \<and> (fst (import_header f) = Inr (tb, te, db, de)
       \<and> fst (read_text tb te (snd (import_header f))) = Inr (sep, region)
       \<and> py_split region sep = Inr l
       \<and> (hd l \<noteq> [] \<or> last l \<noteq> [] \<or> list_ex (\<lambda>x. x = []) (butlast (tl l))
            \<or> odd (length (butlast (tl l)))) \<longrightarrow>
      (\<exists>m. fst (load_from_file fs (Stream f)) = Inl (ImportError m)))
   \<and> (fst (import_text f) = Inr (d, dbeg, dend) \<longrightarrow>
        (d ''$DATATYPE'' = Some v1 \<and> v1 \<noteq> ''I'' \<longrightarrow>
           fst (load_from_file fs (Stream f)) = Inl (TypeError ''FCS file $DATATYPE is not I''))
      \<and> (d ''$DATATYPE'' = Some ''I'' \<and> d ''$MODE'' = Some v2 \<and> v2 \<noteq> ''L'' \<longrightarrow>
           fst (load_from_file fs (Stream f)) = Inl (TypeError ''FCS file $MODE is not L''))
      \<and> (d ''$DATATYPE'' = Some ''I'' \<and> d ''$MODE'' = Some ''L''
          \<and> d ''$BYTEORD'' = Some v3 \<and> v3 \<noteq> ''4,3,2,1'' \<longrightarrow>
           fst (load_from_file fs (Stream f)) =
             Inl (TypeError ''FCS file $BYTEORD is not 4,3,2,1''))
      \<and> (d ''$DATATYPE'' = Some ''I'' \<and> d ''$MODE'' = Some ''L''
          \<and> d ''$BYTEORD'' = Some ''4,3,2,1''
          \<and> err_bind (getitem d ''$PAR'') py_int = Inr n
          \<and> bits_per_channel d [1..n] = Inr bits \<longrightarrow>
           (\<not> list_all (\<lambda>b. b = 16) bits \<longrightarrow>
              fst (load_from_file fs (Stream f)) =
                Inl (TypeError
                  ''channel bit width error: $PnB != 16 for all parameters (channels)''))
         \<and> (list_all (\<lambda>b. b = 16) bits \<and> d ''$NEXTDATA'' = Some v4 \<and> v4 \<noteq> ''0'' \<longrightarrow>
              fst (load_from_file fs (Stream f)) =
                Inl (TypeError ''FCS file contains more than one data set'')))
      \<and> (confirm_assumptions d = Inr () \<and> channel_info d = Inr chs
          \<and> err_bind (getitem d ''$TOT'') py_int = Inr tot
          \<and> err_bind (getitem d ''$PAR'') py_int = Inr par
          \<and> tot * par * 2 \<noteq> (dend + 1) - dbeg \<longrightarrow>
           fst (load_from_file fs (Stream f)) =
             Inl (ImportError ''DATA size does not match expected array size'')))"
proof -
  have version: "fst (load_from_file fs (Stream f)) =
      Inl (TypeError ''incorrection FCS file version'')"
    if "\<not> closed f \<and> take 10 (drop (pos f) (content f)) \<noteq> ''FCS2.0    ''"
    using that
    by (simp add: load_from_file_Stream load_body_text_error import_text_header_error
        import_header_version)
  have tokens: "\<exists>m. fst (load_from_file fs (Stream f)) = Inl (ImportError m)"
    if a: "fst (import_header f) = Inr (tb, te, db, de)
       \<and> fst (read_text tb te (snd (import_header f))) = Inr (sep, region)
       \<and> py_split region sep = Inr l
       \<and> (hd l \<noteq> [] \<or> last l \<noteq> [] \<or> list_ex (\<lambda>x. x = []) (butlast (tl l))
            \<or> odd (length (butlast (tl l))))"
  proof -
    from a have h: "fst (import_header f) = Inr (tb, te, db, de)"
      and r: "fst (read_text tb te (snd (import_header f))) = Inr (sep, region)"
      and s: "py_split region sep = Inr l"
      by simp_all
    have it: "fst (import_text f) =
     (if hd l \<noteq> [] \<or> last l \<noteq> [] then Inl (ImportError ''error parsing TEXT section'')
      else if tl l = [] then Inl (IndexError ''list assignment index out of range'')
      else if list_ex (\<lambda>x. x = []) (butlast (tl l))
      then Inl (ImportError ''error parsing TEXT section: delimiter used in keyword or value.'')
      else if odd (length (butlast (tl l)))
      then Inl (ImportError ''error parsing TEXT section: odd # of key-value entries'')
      else Inr (py_dict (zip (step2 (butlast (tl l))) (step2 (drop 1 (butlast (tl l))))),
                db, de))"
      by (rule import_text_tokens [OF h r s])
    from a have "hd l \<noteq> [] \<or> last l \<noteq> [] \<or> tl l \<noteq> []"
      by (blast dest: list_ex_butlast_tl odd_length_butlast_tl)
    with a it have "\<exists>m. fst (import_text f) = Inl (ImportError m)"
      by auto
    then show ?thesis
      by (auto simp: load_from_file_Stream dest: load_body_text_error)
  qed
  have profile: "?thesis" if "\<not> fst (import_text f) = Inr (d, dbeg, dend)"
    using that version tokens by blast
  show ?thesis
  proof (cases "fst (import_text f) = Inr (d, dbeg, dend)")
    case False
    then show ?thesis by (rule profile)
  next
    case True
    note ce = load_body_confirm_error [OF True]
    have p1: "d ''$DATATYPE'' = Some v1 \<and> v1 \<noteq> ''I'' \<longrightarrow>
           fst (load_from_file fs (Stream f)) = Inl (TypeError ''FCS file $DATATYPE is not I'')"
      by (auto simp: load_from_file_Stream intro!: ce confirm_datatype)
    have p2: "d ''$DATATYPE'' = Some ''I'' \<and> d ''$MODE'' = Some v2 \<and> v2 \<noteq> ''L'' \<longrightarrow>
           fst (load_from_file fs (Stream f)) = Inl (TypeError ''FCS file $MODE is not L'')"
      by (auto simp: load_from_file_Stream intro!: ce confirm_mode)
    have p3: "d ''$DATATYPE'' = Some ''I'' \<and> d ''$MODE'' = Some ''L''
          \<and> d ''$BYTEORD'' = Some v3 \<and> v3 \<noteq> ''4,3,2,1'' \<longrightarrow>
           fst (load_from_file fs (Stream f)) =
             Inl (TypeError ''FCS file $BYTEORD is not 4,3,2,1'')"
      by (auto simp: load_from_file_Stream intro!: ce confirm_byteord)
    have p4: "d ''$DATATYPE'' = Some ''I'' \<and> d ''$MODE'' = Some ''L''
          \<and> d ''$BYTEORD'' = Some ''4,3,2,1''
          \<and> err_bind (getitem d ''$PAR'') py_int = Inr n
          \<and> bits_per_channel d [1..n] = Inr bits \<longrightarrow>
           (\<not> list_all (\<lambda>b. b = 16) bits \<longrightarrow>
              fst (load_from_file fs (Stream f)) =
                Inl (TypeError
                  ''channel bit width error: $PnB != 16 for all parameters (channels)''))
         \<and> (list_all (\<lambda>b. b = 16) bits \<and> d ''$NEXTDATA'' = Some v4 \<and> v4 \<noteq> ''0'' \<longrightarrow>
              fst (load_from_file fs (Stream f)) =
                Inl (TypeError ''FCS file contains more than one data set''))"
      using ce [OF confirm_bits [of d n bits]] ce [OF confirm_nextdata [of d n bits v4]]
      by (simp add: load_from_file_Stream)
    have p5: "confirm_assumptions d = Inr () \<and> channel_info d = Inr chs
          \<and> err_bind (getitem d ''$TOT'') py_int = Inr tot
          \<and> err_bind (getitem d ''$PAR'') py_int = Inr par
          \<and> tot * par * 2 \<noteq> (dend + 1) - dbeg \<longrightarrow>
           fst (load_from_file fs (Stream f)) =
             Inl (ImportError ''DATA size does not match expected array size'')"
      using load_body_size_error [OF True, of chs tot par]
      by (simp add: load_from_file_Stream)
    from version tokens p1 p2 p3 p4 p5 show ?thesis by blast
  qed
qed

subsection \<open>The start/end gate and the high/low gate\<close>

lemma apply_mask_Nil [simp]: "apply_mask [] xs = []" "apply_mask m [] = []"
  by (simp_all add: apply_mask_def)

lemma apply_mask_Cons [simp]:
  "apply_mask (b # m) (x # xs) = (if b then x # apply_mask m xs else apply_mask m xs)"
  by (simp add: apply_mask_def)

lemma apply_mask_False: "apply_mask (replicate n False @ m) xs = apply_mask m (drop n xs)"
proof (induction n arbitrary: xs)
  case 0
  then show ?case by simp
next
  case (Suc n)
  then show ?case by (cases xs) simp_all
qed

lemma apply_mask_True: "apply_mask (replicate n True @ m) xs = take n xs @ apply_mask m (drop n xs)"
proof (induction n arbitrary: xs)
  case 0
  then show ?case by simp
next
  case (Suc n)
  then show ?case by (cases xs) simp_all
qed

lemma apply_mask_all_False: "apply_mask (replicate n False) xs = []"
  using apply_mask_False [of n "[]" xs] by simp

lemma apply_mask_map: "apply_mask (map P xs) xs = filter P xs"
  by (induction xs) simp_all

lemma take_drop_nths:
  assumes "a + m \<le> length xs"
  shows "take m (drop a xs) = map (\<lambda>i. xs ! i) [a ..< a + m]"
proof (rule nth_equalityI)
  show "length (take m (drop a xs)) = length (map (\<lambda>i. xs ! i) [a ..< a + m])"
    using assms by simp
next
  fix i
  assume "i < length (take m (drop a xs))"
  then have i: "i < m" by simp
  then have "take m (drop a xs) ! i = xs ! (a + i)" using assms by simp
  moreover have "map (\<lambda>i. xs ! i) [a ..< a + m] ! i = xs ! (a + i)" using i by simp
  ultimately show "take m (drop a xs) ! i = map (\<lambda>i. xs ! i) [a ..< a + m] ! i" by simp
qed

text \<open>
  Claim C4. For a matrix of \<open>L\<close> rows and counts \<open>a\<close> and \<open>b\<close>: \<open>start_end\<close> fails, with
  \<^verbatim>\<open>ValueError\<close>, exactly when \<open>a + b > L\<close>; otherwise it returns the rows of index \<open>a\<close> up
  to \<open>L - b\<close> (excluded) in their order, and its mask has length \<open>L\<close> and is True exactly at
  those indices. With \<open>a + b = L\<close> the result is empty.
\<close>
theorem start_end_rows:
  "(isl (start_end data a b) \<longleftrightarrow> length data < a + b)
   \<and> (\<forall>e. start_end data a b = Inl e \<longrightarrow> class_of e = ValueErrorC)
   \<and> (a + b \<le> length data \<longrightarrow>
        (\<exists>r. start_end data a b = Inr r
           \<and> gated_data r = map (\<lambda>i. data ! i) [a ..< length data - b]
           \<and> length (mask r) = length data
           \<and> (\<forall>i < length data. mask r ! i \<longleftrightarrow> a \<le> i \<and> i < length data - b)))"
proof -
  have err: "isl (start_end data a b) \<longleftrightarrow> length data < a + b"
    by (simp add: start_end_def Let_def)
  have cls: "\<forall>e. start_end data a b = Inl e \<longrightarrow> class_of e = ValueErrorC"
    by (auto simp: start_end_def Let_def split: if_splits)
  have ok: "\<exists>r. start_end data a b = Inr r
           \<and> gated_data r = map (\<lambda>i. data ! i) [a ..< length data - b]
           \<and> length (mask r) = length data
           \<and> (\<forall>i < length data. mask r ! i \<longleftrightarrow> a \<le> i \<and> i < length data - b)"
    if le: "a + b \<le> length data"
  proof -
    define k where "k = length data - a - b"
    define m where "m = replicate a False @ replicate k True @ replicate b False"
    have se: "start_end data a b = Inr \<lparr>gated_data = apply_mask m data, mask = m\<rparr>"
      using le by (simp add: start_end_def Let_def m_def k_def)
    have ak: "a + k = length data - b" using le by (simp add: k_def)
    have "apply_mask m data = take k (drop a data)"
      unfolding m_def by (simp add: apply_mask_False apply_mask_True apply_mask_all_False)
    also have "\<dots> = map (\<lambda>i. data ! i) [a ..< a + k]"
      using le by (intro take_drop_nths) (simp add: k_def)
    finally have g: "apply_mask m data = map (\<lambda>i. data ! i) [a ..< length data - b]"
      by (simp only: ak)
    have len: "length m = length data" using le by (simp add: m_def k_def)
    have nth: "m ! i \<longleftrightarrow> a \<le> i \<and> i < length data - b" if "i < length data" for i
      using that le unfolding m_def ak [symmetric]
      by (auto simp: nth_append k_def)
    from se g len nth show ?thesis by simp
  qed
  from err cls ok show ?thesis by blast
qed

lemma in_range_Some: "in_range (Some lo) (Some hi) v \<longleftrightarrow> lo < v \<and> v < hi"
  by (simp add: in_range_def)

lemma in_range_None: "in_range None None v"
  by (simp add: in_range_def)

text \<open>
  Claim C5. For channel indices inside the matrix, \<open>high_low\<close> with bounds \<open>lo\<close> and \<open>hi\<close>
  retains a row exactly when \<open>lo < v\<close> and \<open>v < hi\<close> hold for its value \<open>v\<close> on every selected
  channel, the empty selection meaning all channels; without bounds it retains every row.
\<close>
theorem high_low_retains:
  assumes valid: "\<forall>r \<in> set data. \<forall>c \<in> set channels. c < length r"
  shows "(\<exists>res. high_low data channels (Some lo) (Some hi) = Inr res
            \<and> length (mask res) = length data
            \<and> (\<forall>i < length data. mask res ! i \<longleftrightarrow>
                  (\<forall>c \<in> (if channels = [] then {0 ..< length (data ! i)} else set channels).
                      lo < data ! i ! c \<and> data ! i ! c < hi))
            \<and> gated_data res =
                filter (\<lambda>r. \<forall>c \<in> (if channels = [] then {0 ..< length r} else set channels).
                              lo < r ! c \<and> r ! c < hi) data)
       \<and> high_low data channels None None =
           Inr \<lparr>gated_data = data, mask = replicate (length data) True\<rparr>"
proof -
  have noerr: "\<not> list_ex (\<lambda>r. list_ex (\<lambda>c. length r \<le> c) channels) data"
  proof -
    have "\<not> length r \<le> c" if "r \<in> set data" "c \<in> set channels" for r c
      using valid that by (simp add: not_le)
    then show ?thesis by (auto simp: list_ex_iff)
  qed
  define keep where "keep = (\<lambda>r. if channels = [] then list_all (in_range (Some lo) (Some hi)) r
                           else list_all (\<lambda>c. in_range (Some lo) (Some hi) (r ! c)) channels)"
  have keep_iff: "keep r \<longleftrightarrow>
      (\<forall>c \<in> (if channels = [] then {0 ..< length r} else set channels). lo < r ! c \<and> r ! c < hi)"
    for r
    by (auto simp: keep_def list_all_iff in_range_Some all_set_conv_all_nth)
  have hl: "high_low data channels (Some lo) (Some hi) =
      Inr \<lparr>gated_data = filter keep data, mask = map keep data\<rparr>"
    using noerr by (simp add: high_low_def Let_def keep_def [symmetric] apply_mask_map)
  have one: "\<exists>res. high_low data channels (Some lo) (Some hi) = Inr res
            \<and> length (mask res) = length data
            \<and> (\<forall>i < length data. mask res ! i \<longleftrightarrow>
                  (\<forall>c \<in> (if channels = [] then {0 ..< length (data ! i)} else set channels).
                      lo < data ! i ! c \<and> data ! i ! c < hi))
            \<and> gated_data res =
                filter (\<lambda>r. \<forall>c \<in> (if channels = [] then {0 ..< length r} else set channels).
                              lo < r ! c \<and> r ! c < hi) data"
    unfolding hl by (simp add: keep_iff cong: filter_cong)
  define all where "all = (\<lambda>r::'a list. if channels = [] then list_all (in_range None None) r
                           else list_all (\<lambda>c. in_range None None (r ! c)) channels)"
  have all_True: "all r" for r
    by (simp add: all_def list_all_iff in_range_None)
  have "high_low data channels None None =
      Inr \<lparr>gated_data = filter all data, mask = map all data\<rparr>"
    using noerr by (simp add: high_low_def Let_def all_def [symmetric] apply_mask_map)
  also have "filter all data = data" by (simp add: all_True)
  also have "map all data = replicate (length data) True"
  proof -
    have "all = (\<lambda>r. True)" by (rule ext) (simp add: all_True)
    then show ?thesis by (simp add: map_replicate_const)
  qed
  finally have two: "high_low data channels None None =
           Inr \<lparr>gated_data = data, mask = replicate (length data) True\<rparr>" .
  from one two show ?thesis by blast
qed

subsection \<open>The density gate\<close>

lemma find_descending:
  "sorted_wrt (\<lambda>x y. y \<le> x) (xs :: 'a::linorder list) \<Longrightarrow> find P xs = Some a \<Longrightarrow> b \<in> set xs \<Longrightarrow> P b \<Longrightarrow> b \<le> a"
proof (induction xs)
  case Nil
  then show ?case by simp
next
  case (Cons x xs)
  show ?case
  proof (cases "P x")
    case True
    with Cons.prems(2) have "a = x" by simp
    with Cons.prems(1,3) show ?thesis by auto
  next
    case False
    with Cons.prems have "find P xs = Some a" "b \<in> set xs" by auto
    with Cons.IH Cons.prems(1,4) show ?thesis by simp
  qed
qed

lemma descending_sort: "sorted_wrt (\<lambda>x y. y \<le> x) (rev (sort xs))"
  by (simp add: sorted_wrt_rev)

lemma threshold_Some:
  assumes "threshold scores g = Some t"
  shows "t \<in> set scores \<and> g * real (length scores) \<le> real (count_at_or_above scores t)"
proof -
  from assms obtain i where "i < length (rev (sort scores))"
    and "g * real (length scores) \<le> real (count_at_or_above scores (rev (sort scores) ! i))"
    and "t = rev (sort scores) ! i"
    unfolding threshold_def find_Some_iff by blast
  moreover from this have "t \<in> set (rev (sort scores))" by (metis nth_mem)
  ultimately show ?thesis by simp
qed

lemma threshold_exists:
  assumes "scores \<noteq> []" and "g \<le> 1"
  shows "\<exists>t. threshold scores g = Some t"
proof -
  define m where "m = Min (set scores)"
  have m: "m \<in> set scores" unfolding m_def using assms(1) by (intro Min_in) simp_all
  have "\<forall>s \<in> set scores. m \<le> s" unfolding m_def by simp
  then have "filter (\<lambda>s. m \<le> s) scores = scores" by (simp add: filter_id_conv)
  then have "count_at_or_above scores m = length scores" by (simp add: count_at_or_above_def)
  moreover have "g * real (length scores) \<le> 1 * real (length scores)"
    using assms(2) by (intro mult_right_mono) simp_all
  ultimately have "g * real (length scores) \<le> real (count_at_or_above scores m)" by simp
  with m have "\<exists>x \<in> set (rev (sort scores)).
      g * real (length scores) \<le> real (count_at_or_above scores x)" by auto
  then have "threshold scores g \<noteq> None" unfolding threshold_def find_None_iff by blast
  then show ?thesis by auto
qed

lemma threshold_mono:
  assumes "threshold scores g1 = Some t1" and "threshold scores g2 = Some t2" and "g1 \<le> g2"
  shows "t2 \<le> t1"
proof -
  from threshold_Some [OF assms(2)] have t2: "t2 \<in> set scores"
    and c2: "g2 * real (length scores) \<le> real (count_at_or_above scores t2)" by simp_all
  have "g1 * real (length scores) \<le> g2 * real (length scores)"
    using assms(3) by (simp add: mult_right_mono)
  with c2 have c1: "g1 * real (length scores) \<le> real (count_at_or_above scores t2)" by simp
  from t2 have mem: "t2 \<in> set (rev (sort scores))" by simp
  show ?thesis
    using find_descending [OF descending_sort assms(1) [unfolded threshold_def] mem] c1
    by simp
qed

lemma density2d_unfold:
  assumes "length channels = 2" and "\<forall>r \<in> set data. \<forall>c \<in> set channels. c < length r"
      and "0 < g" and "g \<le> 1"
  shows "density2d kde bins data channels g =
     (let points = map (\<lambda>r. (r ! (channels ! 0), r ! (channels ! 1))) data;
          scores = map (kde points bins) points;
          m = (case threshold scores g of
                 None \<Rightarrow> map (\<lambda>s. False) scores
               | Some t \<Rightarrow> map (\<lambda>s. t \<le> s) scores)
      in Inr \<lparr>gated_data = apply_mask m data, mask = m\<rparr>)"
proof -
  have "\<not> length r \<le> c" if "r \<in> set data" "c \<in> set channels" for r c
    using assms(2) that by (simp add: not_le)
  then have "\<not> list_ex (\<lambda>r. list_ex (\<lambda>c. length r \<le> c) channels) data"
    by (auto simp: list_ex_iff)
  with assms(1,3,4) show ?thesis by (simp add: density2d_def)
qed

text \<open>
  Claim C9. For one matrix, channel pair, density estimate and grid, and gate fractions
  \<open>0 < f1 < f2 \<le> 1\<close>: both calls of \<open>density2d\<close> return, and every event retained at \<open>f1\<close>
  is retained at \<open>f2\<close>.
\<close>
theorem density2d_nested:
  assumes two: "length channels = 2"
      and valid: "\<forall>r \<in> set data. \<forall>c \<in> set channels. c < length r"
      and f1: "0 < f1" and lt: "f1 < f2" and f2: "f2 \<le> 1"
  shows "\<exists>r1 r2. density2d kde bins data channels f1 = Inr r1
           \<and> density2d kde bins data channels f2 = Inr r2
           \<and> length (mask r1) = length data \<and> length (mask r2) = length data
           \<and> (\<forall>i < length data. mask r1 ! i \<longrightarrow> mask r2 ! i)
           \<and> set (gated_data r1) \<subseteq> set (gated_data r2)"
proof -
  define points where "points = map (\<lambda>r. (r ! (channels ! 0), r ! (channels ! 1))) data"
  define score where "score = (\<lambda>r. kde points bins (r ! (channels ! 0), r ! (channels ! 1)))"
  define scores where "scores = map score data"
  define keep where "keep = (\<lambda>g r. case threshold scores g of
                       None \<Rightarrow> False | Some t \<Rightarrow> t \<le> score r)"
  have sc: "map (kde points bins) points = scores"
    by (simp add: scores_def score_def points_def)
  have m: "(case threshold scores g of
              None \<Rightarrow> map (\<lambda>s. False) scores
            | Some t \<Rightarrow> map (\<lambda>s. t \<le> s) scores) = map (keep g) data" for g
    by (simp add: keep_def scores_def split: option.splits)
  have res: "density2d kde bins data channels g =
      Inr \<lparr>gated_data = filter (keep g) data, mask = map (keep g) data\<rparr>"
    if "0 < g" "g \<le> 1" for g
    unfolding density2d_unfold [OF two valid that] Let_def points_def [symmetric] sc m
    by (simp add: apply_mask_map)
  have g1: "0 < f1" "f1 \<le> 1" and g2: "0 < f2" "f2 \<le> 1"
    using f1 lt f2 by simp_all
  have imp: "keep f2 r" if k: "keep f1 r" and r: "r \<in> set data" for r
  proof -
    from r have ne: "scores \<noteq> []" by (auto simp: scores_def)
    from threshold_exists [OF ne g1(2)] obtain t1 where t1: "threshold scores f1 = Some t1" ..
    from threshold_exists [OF ne g2(2)] obtain t2 where t2: "threshold scores f2 = Some t2" ..
    from threshold_mono [OF t1 t2] lt have "t2 \<le> t1" by simp
    moreover from k t1 have "t1 \<le> score r" by (simp add: keep_def)
    ultimately show ?thesis using t2 by (simp add: keep_def)
  qed
  have "\<forall>i < length data. map (keep f1) data ! i \<longrightarrow> map (keep f2) data ! i"
    using imp by simp
  moreover have "set (filter (keep f1) data) \<subseteq> set (filter (keep f2) data)"
    using imp by auto
  ultimately show ?thesis
    unfolding res [OF g1] res [OF g2] by simp
qed

subsection \<open>Evaluation of the example inputs\<close>

lemmas eval_int = py_int_def strip_def is_space_def is_digit_def digits_val_def digit_val_def

lemmas eval_header = import_header_def read_int8_def io_bind_def io_lift_def io_return_def
  f_read_def Let_def eval_int

lemmas eval_read_text = read_text_def f_seek_def

lemma ex_good_header: "fst (import_header ex_good) = Inr (42, 113, 114, 117)"
  by (simp add: ex_good_def eval_header)

lemma ex_good_read_text:
  "fst (read_text 42 113 (snd (import_header ex_good))) =
     Inr (''/'', ''/$DATATYPE/I/$MODE/L/$BYTEORD/4,3,2,1/$PAR/1/$P1B/16/$NEXTDATA/0/$TOT/2/'')"
  by (simp add: ex_good_def eval_header eval_read_text)

lemma ex_good_split:
  "py_split ''/$DATATYPE/I/$MODE/L/$BYTEORD/4,3,2,1/$PAR/1/$P1B/16/$NEXTDATA/0/$TOT/2/'' ''/'' =
     Inr [[], ''$DATATYPE'', ''I'', ''$MODE'', ''L'', ''$BYTEORD'', ''4,3,2,1'', ''$PAR'', ''1'', ''$P1B'', ''16'', ''$NEXTDATA'', ''0'', ''$TOT'', ''2'', []]"
  by (simp add: py_split_def)

lemma ex_good_text:
  "fst (import_text ex_good) =
     Inr (py_dict [(''$DATATYPE'', ''I''), (''$MODE'', ''L''), (''$BYTEORD'', ''4,3,2,1''), (''$PAR'', ''1''), (''$P1B'', ''16''), (''$NEXTDATA'', ''0''), (''$TOT'', ''2'')],
          114, 117)"
  using import_text_tokens [OF ex_good_header ex_good_read_text ex_good_split] by simp

lemma ex_unclosed_header: "fst (import_header ex_unclosed) = Inr (42, 48, 49, 48)"
  by (simp add: ex_unclosed_def eval_header)

lemma ex_unclosed_read_text:
  "fst (read_text 42 48 (snd (import_header ex_unclosed))) =
     Inr (''/'', ''/$TOT/2'')"
  by (simp add: ex_unclosed_def eval_header eval_read_text)

lemma ex_unclosed_split:
  "py_split ''/$TOT/2'' ''/'' =
     Inr [[], ''$TOT'', ''2'']"
  by (simp add: py_split_def)

lemma ex_delimiter_header: "fst (import_header ex_delimiter) = Inr (42, 50, 51, 50)"
  by (simp add: ex_delimiter_def eval_header)

lemma ex_delimiter_read_text:
  "fst (read_text 42 50 (snd (import_header ex_delimiter))) =
     Inr (''/'', ''/$TOT//2/'')"
  by (simp add: ex_delimiter_def eval_header eval_read_text)

lemma ex_delimiter_split:
  "py_split ''/$TOT//2/'' ''/'' =
     Inr [[], ''$TOT'', [], ''2'', []]"
  by (simp add: py_split_def)

lemma ex_odd_header: "fst (import_header ex_odd) = Inr (42, 51, 52, 51)"
  by (simp add: ex_odd_def eval_header)

lemma ex_odd_read_text:
  "fst (read_text 42 51 (snd (import_header ex_odd))) =
     Inr (''/'', ''/$TOT/2/x/'')"
  by (simp add: ex_odd_def eval_header eval_read_text)

lemma ex_odd_split:
  "py_split ''/$TOT/2/x/'' ''/'' =
     Inr [[], ''$TOT'', ''2'', ''x'', []]"
  by (simp add: py_split_def)

lemma ex_datatype_header: "fst (import_header ex_datatype) = Inr (42, 54, 55, 54)"
  by (simp add: ex_datatype_def eval_header)

lemma ex_datatype_read_text:
  "fst (read_text 42 54 (snd (import_header ex_datatype))) =
     Inr (''/'', ''/$DATATYPE/F/'')"
  by (simp add: ex_datatype_def eval_header eval_read_text)

lemma ex_datatype_split:
  "py_split ''/$DATATYPE/F/'' ''/'' =
     Inr [[], ''$DATATYPE'', ''F'', []]"
  by (simp add: py_split_def)

lemma ex_datatype_text:
  "fst (import_text ex_datatype) =
     Inr (py_dict [(''$DATATYPE'', ''F'')],
          55, 54)"
  using import_text_tokens [OF ex_datatype_header ex_datatype_read_text ex_datatype_split] by simp

lemma ex_mode_header: "fst (import_header ex_mode) = Inr (42, 62, 63, 62)"
  by (simp add: ex_mode_def eval_header)

lemma ex_mode_read_text:
  "fst (read_text 42 62 (snd (import_header ex_mode))) =
     Inr (''/'', ''/$DATATYPE/I/$MODE/C/'')"
  by (simp add: ex_mode_def eval_header eval_read_text)

lemma ex_mode_split:
  "py_split ''/$DATATYPE/I/$MODE/C/'' ''/'' =
     Inr [[], ''$DATATYPE'', ''I'', ''$MODE'', ''C'', []]"
  by (simp add: py_split_def)

lemma ex_mode_text:
  "fst (import_text ex_mode) =
     Inr (py_dict [(''$DATATYPE'', ''I''), (''$MODE'', ''C'')],
          63, 62)"
  using import_text_tokens [OF ex_mode_header ex_mode_read_text ex_mode_split] by simp

lemma ex_byteord_header: "fst (import_header ex_byteord) = Inr (42, 79, 80, 79)"
  by (simp add: ex_byteord_def eval_header)

lemma ex_byteord_read_text:
  "fst (read_text 42 79 (snd (import_header ex_byteord))) =
     Inr (''/'', ''/$DATATYPE/I/$MODE/L/$BYTEORD/1,2,3,4/'')"
  by (simp add: ex_byteord_def eval_header eval_read_text)

lemma ex_byteord_split:
  "py_split ''/$DATATYPE/I/$MODE/L/$BYTEORD/1,2,3,4/'' ''/'' =
     Inr [[], ''$DATATYPE'', ''I'', ''$MODE'', ''L'', ''$BYTEORD'', ''1,2,3,4'', []]"
  by (simp add: py_split_def)

lemma ex_byteord_text:
  "fst (import_text ex_byteord) =
     Inr (py_dict [(''$DATATYPE'', ''I''), (''$MODE'', ''L''), (''$BYTEORD'', ''1,2,3,4'')],
          80, 79)"
  using import_text_tokens [OF ex_byteord_header ex_byteord_read_text ex_byteord_split] by simp

lemma ex_bits_header: "fst (import_header ex_bits) = Inr (42, 93, 94, 93)"
  by (simp add: ex_bits_def eval_header)

lemma ex_bits_read_text:
  "fst (read_text 42 93 (snd (import_header ex_bits))) =
     Inr (''/'', ''/$DATATYPE/I/$MODE/L/$BYTEORD/4,3,2,1/$PAR/1/$P1B/8/'')"
  by (simp add: ex_bits_def eval_header eval_read_text)

lemma ex_bits_split:
  "py_split ''/$DATATYPE/I/$MODE/L/$BYTEORD/4,3,2,1/$PAR/1/$P1B/8/'' ''/'' =
     Inr [[], ''$DATATYPE'', ''I'', ''$MODE'', ''L'', ''$BYTEORD'', ''4,3,2,1'', ''$PAR'', ''1'', ''$P1B'', ''8'', []]"
  by (simp add: py_split_def)

lemma ex_bits_text:
  "fst (import_text ex_bits) =
     Inr (py_dict [(''$DATATYPE'', ''I''), (''$MODE'', ''L''), (''$BYTEORD'', ''4,3,2,1''), (''$PAR'', ''1''), (''$P1B'', ''8'')],
          94, 93)"
  using import_text_tokens [OF ex_bits_header ex_bits_read_text ex_bits_split] by simp

lemma ex_nextdata_header: "fst (import_header ex_nextdata) = Inr (42, 108, 109, 108)"
  by (simp add: ex_nextdata_def eval_header)

lemma ex_nextdata_read_text:
  "fst (read_text 42 108 (snd (import_header ex_nextdata))) =
     Inr (''/'', ''/$DATATYPE/I/$MODE/L/$BYTEORD/4,3,2,1/$PAR/1/$P1B/16/$NEXTDATA/118/'')"
  by (simp add: ex_nextdata_def eval_header eval_read_text)

lemma ex_nextdata_split:
  "py_split ''/$DATATYPE/I/$MODE/L/$BYTEORD/4,3,2,1/$PAR/1/$P1B/16/$NEXTDATA/118/'' ''/'' =
     Inr [[], ''$DATATYPE'', ''I'', ''$MODE'', ''L'', ''$BYTEORD'', ''4,3,2,1'', ''$PAR'', ''1'', ''$P1B'', ''16'', ''$NEXTDATA'', ''118'', []]"
  by (simp add: py_split_def)

lemma ex_nextdata_text:
  "fst (import_text ex_nextdata) =
     Inr (py_dict [(''$DATATYPE'', ''I''), (''$MODE'', ''L''), (''$BYTEORD'', ''4,3,2,1''), (''$PAR'', ''1''), (''$P1B'', ''16''), (''$NEXTDATA'', ''118'')],
          109, 108)"
  using import_text_tokens [OF ex_nextdata_header ex_nextdata_read_text ex_nextdata_split] by simp

lemma ex_size_header: "fst (import_header ex_size) = Inr (42, 113, 114, 117)"
  by (simp add: ex_size_def eval_header)

lemma ex_size_read_text:
  "fst (read_text 42 113 (snd (import_header ex_size))) =
     Inr (''/'', ''/$DATATYPE/I/$MODE/L/$BYTEORD/4,3,2,1/$PAR/1/$P1B/16/$NEXTDATA/0/$TOT/3/'')"
  by (simp add: ex_size_def eval_header eval_read_text)

lemma ex_size_split:
  "py_split ''/$DATATYPE/I/$MODE/L/$BYTEORD/4,3,2,1/$PAR/1/$P1B/16/$NEXTDATA/0/$TOT/3/'' ''/'' =
     Inr [[], ''$DATATYPE'', ''I'', ''$MODE'', ''L'', ''$BYTEORD'', ''4,3,2,1'', ''$PAR'', ''1'', ''$P1B'', ''16'', ''$NEXTDATA'', ''0'', ''$TOT'', ''3'', []]"
  by (simp add: py_split_def)

lemma ex_size_text:
  "fst (import_text ex_size) =
     Inr (py_dict [(''$DATATYPE'', ''I''), (''$MODE'', ''L''), (''$BYTEORD'', ''4,3,2,1''), (''$PAR'', ''1''), (''$P1B'', ''16''), (''$NEXTDATA'', ''0''), (''$TOT'', ''3'')],
          114, 117)"
  using import_text_tokens [OF ex_size_header ex_size_read_text ex_size_split] by simp

lemma ex_no_datatype_header: "fst (import_header ex_no_datatype) = Inr (42, 101, 102, 105)"
  by (simp add: ex_no_datatype_def eval_header)

lemma ex_no_datatype_read_text:
  "fst (read_text 42 101 (snd (import_header ex_no_datatype))) =
     Inr (''/'', ''/$MODE/L/$BYTEORD/4,3,2,1/$PAR/1/$P1B/16/$NEXTDATA/0/$TOT/2/'')"
  by (simp add: ex_no_datatype_def eval_header eval_read_text)

lemma ex_no_datatype_split:
  "py_split ''/$MODE/L/$BYTEORD/4,3,2,1/$PAR/1/$P1B/16/$NEXTDATA/0/$TOT/2/'' ''/'' =
     Inr [[], ''$MODE'', ''L'', ''$BYTEORD'', ''4,3,2,1'', ''$PAR'', ''1'', ''$P1B'', ''16'', ''$NEXTDATA'', ''0'', ''$TOT'', ''2'', []]"
  by (simp add: py_split_def)

lemma ex_no_datatype_text:
  "fst (import_text ex_no_datatype) =
     Inr (py_dict [(''$MODE'', ''L''), (''$BYTEORD'', ''4,3,2,1''), (''$PAR'', ''1''), (''$P1B'', ''16''), (''$NEXTDATA'', ''0''), (''$TOT'', ''2'')],
          102, 105)"
  using import_text_tokens [OF ex_no_datatype_header ex_no_datatype_read_text ex_no_datatype_split] by simp

lemma ex_no_mode_header: "fst (import_header ex_no_mode) = Inr (42, 105, 106, 109)"
  by (simp add: ex_no_mode_def eval_header)

lemma ex_no_mode_read_text:
  "fst (read_text 42 105 (snd (import_header ex_no_mode))) =
     Inr (''/'', ''/$DATATYPE/I/$BYTEORD/4,3,2,1/$PAR/1/$P1B/16/$NEXTDATA/0/$TOT/2/'')"
  by (simp add: ex_no_mode_def eval_header eval_read_text)

lemma ex_no_mode_split:
  "py_split ''/$DATATYPE/I/$BYTEORD/4,3,2,1/$PAR/1/$P1B/16/$NEXTDATA/0/$TOT/2/'' ''/'' =
     Inr [[], ''$DATATYPE'', ''I'', ''$BYTEORD'', ''4,3,2,1'', ''$PAR'', ''1'', ''$P1B'', ''16'', ''$NEXTDATA'', ''0'', ''$TOT'', ''2'', []]"
  by (simp add: py_split_def)

lemma ex_no_mode_text:
  "fst (import_text ex_no_mode) =
     Inr (py_dict [(''$DATATYPE'', ''I''), (''$BYTEORD'', ''4,3,2,1''), (''$PAR'', ''1''), (''$P1B'', ''16''), (''$NEXTDATA'', ''0''), (''$TOT'', ''2'')],
          106, 109)"
  using import_text_tokens [OF ex_no_mode_header ex_no_mode_read_text ex_no_mode_split] by simp

lemma ex_no_byteord_header: "fst (import_header ex_no_byteord) = Inr (42, 96, 97, 100)"
  by (simp add: ex_no_byteord_def eval_header)

lemma ex_no_byteord_read_text:
  "fst (read_text 42 96 (snd (import_header ex_no_byteord))) =
     Inr (''/'', ''/$DATATYPE/I/$MODE/L/$PAR/1/$P1B/16/$NEXTDATA/0/$TOT/2/'')"
  by (simp add: ex_no_byteord_def eval_header eval_read_text)

lemma ex_no_byteord_split:
  "py_split ''/$DATATYPE/I/$MODE/L/$PAR/1/$P1B/16/$NEXTDATA/0/$TOT/2/'' ''/'' =
     Inr [[], ''$DATATYPE'', ''I'', ''$MODE'', ''L'', ''$PAR'', ''1'', ''$P1B'', ''16'', ''$NEXTDATA'', ''0'', ''$TOT'', ''2'', []]"
  by (simp add: py_split_def)

lemma ex_no_byteord_text:
  "fst (import_text ex_no_byteord) =
     Inr (py_dict [(''$DATATYPE'', ''I''), (''$MODE'', ''L''), (''$PAR'', ''1''), (''$P1B'', ''16''), (''$NEXTDATA'', ''0''), (''$TOT'', ''2'')],
          97, 100)"
  using import_text_tokens [OF ex_no_byteord_header ex_no_byteord_read_text ex_no_byteord_split] by simp

lemma ex_no_par_header: "fst (import_header ex_no_par) = Inr (42, 106, 107, 110)"
  by (simp add: ex_no_par_def eval_header)

lemma ex_no_par_read_text:
  "fst (read_text 42 106 (snd (import_header ex_no_par))) =
     Inr (''/'', ''/$DATATYPE/I/$MODE/L/$BYTEORD/4,3,2,1/$P1B/16/$NEXTDATA/0/$TOT/2/'')"
  by (simp add: ex_no_par_def eval_header eval_read_text)

lemma ex_no_par_split:
  "py_split ''/$DATATYPE/I/$MODE/L/$BYTEORD/4,3,2,1/$P1B/16/$NEXTDATA/0/$TOT/2/'' ''/'' =
     Inr [[], ''$DATATYPE'', ''I'', ''$MODE'', ''L'', ''$BYTEORD'', ''4,3,2,1'', ''$P1B'', ''16'', ''$NEXTDATA'', ''0'', ''$TOT'', ''2'', []]"
  by (simp add: py_split_def)

lemma ex_no_par_text:
  "fst (import_text ex_no_par) =
     Inr (py_dict [(''$DATATYPE'', ''I''), (''$MODE'', ''L''), (''$BYTEORD'', ''4,3,2,1''), (''$P1B'', ''16''), (''$NEXTDATA'', ''0''), (''$TOT'', ''2'')],
          107, 110)"
  using import_text_tokens [OF ex_no_par_header ex_no_par_read_text ex_no_par_split] by simp

lemma ex_no_pnb_header: "fst (import_header ex_no_pnb) = Inr (42, 105, 106, 109)"
  by (simp add: ex_no_pnb_def eval_header)

lemma ex_no_pnb_read_text:
  "fst (read_text 42 105 (snd (import_header ex_no_pnb))) =
     Inr (''/'', ''/$DATATYPE/I/$MODE/L/$BYTEORD/4,3,2,1/$PAR/1/$NEXTDATA/0/$TOT/2/'')"
  by (simp add: ex_no_pnb_def eval_header eval_read_text)

lemma ex_no_pnb_split:
  "py_split ''/$DATATYPE/I/$MODE/L/$BYTEORD/4,3,2,1/$PAR/1/$NEXTDATA/0/$TOT/2/'' ''/'' =
     Inr [[], ''$DATATYPE'', ''I'', ''$MODE'', ''L'', ''$BYTEORD'', ''4,3,2,1'', ''$PAR'', ''1'', ''$NEXTDATA'', ''0'', ''$TOT'', ''2'', []]"
  by (simp add: py_split_def)

lemma ex_no_pnb_text:
  "fst (import_text ex_no_pnb) =
     Inr (py_dict [(''$DATATYPE'', ''I''), (''$MODE'', ''L''), (''$BYTEORD'', ''4,3,2,1''), (''$PAR'', ''1''), (''$NEXTDATA'', ''0''), (''$TOT'', ''2'')],
          106, 109)"
  using import_text_tokens [OF ex_no_pnb_header ex_no_pnb_read_text ex_no_pnb_split] by simp

lemma ex_no_nextdata_header: "fst (import_header ex_no_nextdata) = Inr (42, 101, 102, 105)"
  by (simp add: ex_no_nextdata_def eval_header)

lemma ex_no_nextdata_read_text:
  "fst (read_text 42 101 (snd (import_header ex_no_nextdata))) =
     Inr (''/'', ''/$DATATYPE/I/$MODE/L/$BYTEORD/4,3,2,1/$PAR/1/$P1B/16/$TOT/2/'')"
  by (simp add: ex_no_nextdata_def eval_header eval_read_text)

lemma ex_no_nextdata_split:
  "py_split ''/$DATATYPE/I/$MODE/L/$BYTEORD/4,3,2,1/$PAR/1/$P1B/16/$TOT/2/'' ''/'' =
     Inr [[], ''$DATATYPE'', ''I'', ''$MODE'', ''L'', ''$BYTEORD'', ''4,3,2,1'', ''$PAR'', ''1'', ''$P1B'', ''16'', ''$TOT'', ''2'', []]"
  by (simp add: py_split_def)

lemma ex_no_nextdata_text:
  "fst (import_text ex_no_nextdata) =
     Inr (py_dict [(''$DATATYPE'', ''I''), (''$MODE'', ''L''), (''$BYTEORD'', ''4,3,2,1''), (''$PAR'', ''1''), (''$P1B'', ''16''), (''$TOT'', ''2'')],
          102, 105)"
  using import_text_tokens [OF ex_no_nextdata_header ex_no_nextdata_read_text ex_no_nextdata_split] by simp

lemma ex_no_tot_header: "fst (import_header ex_no_tot) = Inr (42, 106, 107, 110)"
  by (simp add: ex_no_tot_def eval_header)

lemma ex_no_tot_read_text:
  "fst (read_text 42 106 (snd (import_header ex_no_tot))) =
     Inr (''/'', ''/$DATATYPE/I/$MODE/L/$BYTEORD/4,3,2,1/$PAR/1/$P1B/16/$NEXTDATA/0/'')"
  by (simp add: ex_no_tot_def eval_header eval_read_text)

lemma ex_no_tot_split:
  "py_split ''/$DATATYPE/I/$MODE/L/$BYTEORD/4,3,2,1/$PAR/1/$P1B/16/$NEXTDATA/0/'' ''/'' =
     Inr [[], ''$DATATYPE'', ''I'', ''$MODE'', ''L'', ''$BYTEORD'', ''4,3,2,1'', ''$PAR'', ''1'', ''$P1B'', ''16'', ''$NEXTDATA'', ''0'', []]"
  by (simp add: py_split_def)

lemma ex_no_tot_text:
  "fst (import_text ex_no_tot) =
     Inr (py_dict [(''$DATATYPE'', ''I''), (''$MODE'', ''L''), (''$BYTEORD'', ''4,3,2,1''), (''$PAR'', ''1''), (''$P1B'', ''16''), (''$NEXTDATA'', ''0'')],
          107, 110)"
  using import_text_tokens [OF ex_no_tot_header ex_no_tot_read_text ex_no_tot_split] by simp

lemmas eval_dict = py_dict_def getitem_def err_bind_def

lemmas eval_confirm = confirm_assumptions_def eval_dict eval_int str_of_int_def
  str_of_nat.simps digit_char_def upto.simps

lemmas eval_channels = channel_info_def ch_full_def amp_def get_val_def py_dict_def
  err_bind_def Let_def

lemma chunks_numeral:
  "chunks (numeral k) d xs = take d xs # chunks (pred_numeral k) d (drop d xs)"
  by (simp add: numeral_eq_Suc)

lemmas eval_data = import_data_def np_memmap_def eval_dict eval_int io_bind_def io_lift_def
  Let_def chunks_numeral

lemmas eval_load = load_from_file_Stream load_body_def import_text_def parse_text_def
  check_tokens_def py_split_def eval_header eval_read_text eval_confirm eval_channels eval_data

lemma ex_good_text': "fst (import_text ex_good) = Inr (ex_good_meta, 114, 117)"
  unfolding ex_good_meta_def by (rule ex_good_text)

lemma ex_size_text': "fst (import_text ex_size) = Inr (ex_size_meta, 114, 117)"
  unfolding ex_size_meta_def by (rule ex_size_text)

lemma ex_good_confirm: "confirm_assumptions ex_good_meta = Inr ()"
  by (simp add: ex_good_meta_def eval_confirm)

lemma ex_size_confirm: "confirm_assumptions ex_size_meta = Inr ()"
  by (simp add: ex_size_meta_def eval_confirm)

lemma ex_good_channels: "channel_info ex_good_meta = Inr ex_channels"
  by (simp add: ex_good_meta_def ex_channels_def eval_channels)

lemma ex_size_channels: "channel_info ex_size_meta = Inr ex_channels"
  by (simp add: ex_size_meta_def ex_channels_def eval_channels)



lemma ex_size_tot: "err_bind (getitem ex_size_meta ''$TOT'') py_int = Inr 3"
  by (simp add: ex_size_meta_def eval_dict eval_int)

lemma ex_size_par: "err_bind (getitem ex_size_meta ''$PAR'') py_int = Inr 1"
  by (simp add: ex_size_meta_def eval_dict eval_int)

lemma ex_good_snd: "snd (import_text ex_good) = ex_good\<lparr>pos := 114\<rparr>"
  by (simp add: ex_good_def import_text_def parse_text_def check_tokens_def py_split_def
      eval_header eval_read_text err_bind_def)

lemma ex_good_data:
  "fst (import_data ex_good_meta 114 117 (ex_good\<lparr>pos := 114\<rparr>)) =
     Inr \<lparr>shape = (2, 1), rows = [[0x4142], [0x4344]]\<rparr>"
  by (simp add: ex_good_meta_def ex_good_def eval_data)

lemma ex_good_load:
  "fst (load_from_file fs (Stream ex_good)) =
     Inr (\<lparr>shape = (2, 1), rows = [[0x4142], [0x4344]]\<rparr>, ex_good_meta, ex_channels)"
  unfolding load_from_file_Stream load_body_unfold [OF ex_good_text'] ex_good_confirm
    ex_good_channels ex_good_snd ex_good_data
  by simp

subsection \<open>The decoder at the example inputs\<close>

theorem text_structure_checks_witness:
  "fst (load_from_file Map.empty (Stream ex_unclosed)) =
     Inl (ImportError ''error parsing TEXT section'')
   \<and> fst (load_from_file Map.empty (Stream ex_delimiter)) =
     Inl (ImportError ''error parsing TEXT section: delimiter used in keyword or value.'')
   \<and> fst (load_from_file Map.empty (Stream ex_odd)) =
     Inl (ImportError ''error parsing TEXT section: odd # of key-value entries'')
   \<and> fst (import_text ex_datatype) = Inr (py_dict [(''$DATATYPE'', ''F'')], 55, 54)"
proof -
  have a: "fst (load_from_file Map.empty (Stream ex_unclosed)) =
     Inl (ImportError ''error parsing TEXT section'')"
    using text_structure_checks [OF ex_unclosed_header ex_unclosed_read_text ex_unclosed_split,
        of Map.empty]
    by simp
  have b: "fst (load_from_file Map.empty (Stream ex_delimiter)) =
     Inl (ImportError ''error parsing TEXT section: delimiter used in keyword or value.'')"
    using text_structure_checks [OF ex_delimiter_header ex_delimiter_read_text
        ex_delimiter_split, of Map.empty]
    by simp
  have c: "fst (load_from_file Map.empty (Stream ex_odd)) =
     Inl (ImportError ''error parsing TEXT section: odd # of key-value entries'')"
    using text_structure_checks [OF ex_odd_header ex_odd_read_text ex_odd_split, of Map.empty]
    by simp
  have d: "fst (import_text ex_datatype) = Inr (py_dict [(''$DATATYPE'', ''F'')], 55, 54)"
    using text_structure_checks [OF ex_datatype_header ex_datatype_read_text
        ex_datatype_split, of Map.empty]
    by simp
  from a b c d show ?thesis by simp
qed





theorem channel_info_six_descriptors_witness:
  "fst (load_from_file Map.empty (Stream ex_good)) =
     Inr (\<lparr>shape = (2, 1), rows = [[0x4142], [0x4344]]\<rparr>, ex_good_meta, ex_channels)
   \<and> ex_good_meta ''$PAR'' = Some ''1''
   \<and> length ex_channels = 6
   \<and> map fst (ex_channels ! 4) =
       [''label'', ''number'', ''pmt_voltage'', ''100x_lin_gain'', ''amplifier'', ''threshold'']
   \<and> map_of (ex_channels ! 4) ''number'' = Some (PInt 5)
   \<and> ex_channels ! 5 = [(''label'', PNone), (''number'', PInt 6)]"
proof -
  note inst = channel_info_six_descriptors [OF ex_good_load [of Map.empty]]
  have p: "ex_good_meta ''$PAR'' = Some ''1''"
    by (simp add: ex_good_meta_def py_dict_def)
  have q: "get_val ex_good_meta ''$P6N'' = PNone"
    by (simp add: ex_good_meta_def py_dict_def get_val_def)
  from inst have "length ex_channels = 6" by simp
  moreover from inst [THEN conjunct2, THEN conjunct1, rule_format, of 4]
  have "map fst (ex_channels ! 4) =
       [''label'', ''number'', ''pmt_voltage'', ''100x_lin_gain'', ''amplifier'', ''threshold'']
     \<and> map_of (ex_channels ! 4) ''number'' = Some (PInt 5)"
    by simp
  moreover from inst q have "ex_channels ! 5 = [(''label'', PNone), (''number'', PInt 6)]"
    by simp
  ultimately show ?thesis using ex_good_load [of Map.empty] p by simp
qed

text \<open>
  Claim C2 as stated fails: \<open>ex_good\<close> declares one channel (\<open>$PAR\<close> is \<open>1\<close>) and the decoder
  returns six descriptors for it.
\<close>
theorem channel_count_counterexample:
  "map_sum id (\<lambda>(data, d, chs). (d ''$PAR'', length chs))
     (fst (load_from_file Map.empty (Stream ex_good))) = Inr (Some ''1'', 6)"
  by (simp add: ex_good_load ex_good_meta_def py_dict_def ex_channels_def)

lemma ex_version_load:
  "fst (load_from_file fs (Stream ex_version)) = Inl (TypeError ''incorrection FCS file version'')"
  by (simp add: load_from_file_Stream load_body_text_error import_text_header_error
      import_header_version ex_version_def)

lemma ex_unclosed_load:
  "fst (load_from_file fs (Stream ex_unclosed)) = Inl (ImportError ''error parsing TEXT section'')"
  using import_text_tokens [OF ex_unclosed_header ex_unclosed_read_text ex_unclosed_split]
  by (simp add: load_from_file_Stream load_body_text_error)

text \<open>
  Claim C1 as stated fails: a file with another version tag and a file whose TEXT region
  does not end with the delimiter are both malformed, and the decoder raises exceptions of
  two different classes for them.
\<close>
theorem single_error_class_counterexample:
  "map_sum class_of (\<lambda>r. ()) (fst (load_from_file Map.empty (Stream ex_version))) =
     Inl TypeErrorC
   \<and> map_sum class_of (\<lambda>r. ()) (fst (load_from_file Map.empty (Stream ex_unclosed))) =
     Inl ImportErrorC"
  by (simp add: ex_version_load ex_unclosed_load)

lemma ex_bits_par:
  "err_bind (getitem (py_dict [(''$DATATYPE'', ''I''), (''$MODE'', ''L''),
      (''$BYTEORD'', ''4,3,2,1''), (''$PAR'', ''1''), (''$P1B'', ''8'')]) ''$PAR'') py_int = Inr 1"
  by (simp add: eval_dict eval_int)

lemma ex_bits_bits:
  "bits_per_channel (py_dict [(''$DATATYPE'', ''I''), (''$MODE'', ''L''),
      (''$BYTEORD'', ''4,3,2,1''), (''$PAR'', ''1''), (''$P1B'', ''8'')]) [1..1] = Inr [8]"
  by (simp add: eval_dict eval_int str_of_int_def str_of_nat.simps digit_char_def upto.simps)

lemma ex_nextdata_par:
  "err_bind (getitem (py_dict [(''$DATATYPE'', ''I''), (''$MODE'', ''L''),
      (''$BYTEORD'', ''4,3,2,1''), (''$PAR'', ''1''), (''$P1B'', ''16''),
      (''$NEXTDATA'', ''118'')]) ''$PAR'') py_int = Inr 1"
  by (simp add: eval_dict eval_int)

lemma ex_nextdata_bits:
  "bits_per_channel (py_dict [(''$DATATYPE'', ''I''), (''$MODE'', ''L''),
      (''$BYTEORD'', ''4,3,2,1''), (''$PAR'', ''1''), (''$P1B'', ''16''),
      (''$NEXTDATA'', ''118'')]) [1..1] = Inr [16]"
  by (simp add: eval_dict eval_int str_of_int_def str_of_nat.simps digit_char_def upto.simps)

theorem violations_raise_TypeError_or_ImportError_witness:
  "fst (load_from_file Map.empty (Stream ex_version)) =
     Inl (TypeError ''incorrection FCS file version'')
   \<and> (\<exists>m. fst (load_from_file Map.empty (Stream ex_unclosed)) = Inl (ImportError m))
   \<and> fst (load_from_file Map.empty (Stream ex_datatype)) =
     Inl (TypeError ''FCS file $DATATYPE is not I'')
   \<and> fst (load_from_file Map.empty (Stream ex_mode)) =
     Inl (TypeError ''FCS file $MODE is not L'')
   \<and> fst (load_from_file Map.empty (Stream ex_byteord)) =
     Inl (TypeError ''FCS file $BYTEORD is not 4,3,2,1'')
   \<and> fst (load_from_file Map.empty (Stream ex_bits)) =
     Inl (TypeError ''channel bit width error: $PnB != 16 for all parameters (channels)'')
   \<and> fst (load_from_file Map.empty (Stream ex_nextdata)) =
     Inl (TypeError ''FCS file contains more than one data set'')
   \<and> fst (load_from_file Map.empty (Stream ex_size)) =
     Inl (ImportError ''DATA size does not match expected array size'')"
proof -
  have a: "fst (load_from_file Map.empty (Stream ex_version)) =
     Inl (TypeError ''incorrection FCS file version'')"
    using violations_raise_TypeError_or_ImportError
      [where f = ex_version and fs = Map.empty, THEN conjunct1]
    by (simp add: ex_version_def)
  have b: "\<exists>m. fst (load_from_file Map.empty (Stream ex_unclosed)) = Inl (ImportError m)"
    using violations_raise_TypeError_or_ImportError
      [where f = ex_unclosed and fs = Map.empty and tb = 42 and te = 48 and db = 49 and de = 48
        and sep = "''/''" and region = "''/$TOT/2''" and l = "[[], ''$TOT'', ''2'']",
        THEN conjunct2, THEN conjunct1]
      ex_unclosed_header ex_unclosed_read_text ex_unclosed_split
    by simp
  have c: "fst (load_from_file Map.empty (Stream ex_datatype)) =
     Inl (TypeError ''FCS file $DATATYPE is not I'')"
    using violations_raise_TypeError_or_ImportError
      [where f = ex_datatype and fs = Map.empty and dbeg = 55 and dend = 54
        and d = "py_dict [(''$DATATYPE'', ''F'')]" and ?v1.0 = "''F''",
        THEN conjunct2, THEN conjunct2, rule_format, OF ex_datatype_text, THEN conjunct1]
    by (simp add: py_dict_def)
  have d: "fst (load_from_file Map.empty (Stream ex_mode)) =
     Inl (TypeError ''FCS file $MODE is not L'')"
    using violations_raise_TypeError_or_ImportError
      [where f = ex_mode and fs = Map.empty and dbeg = 63 and dend = 62
        and d = "py_dict [(''$DATATYPE'', ''I''), (''$MODE'', ''C'')]" and ?v2.0 = "''C''",
        THEN conjunct2, THEN conjunct2, rule_format, OF ex_mode_text,
        THEN conjunct2, THEN conjunct1]
    by (simp add: py_dict_def)
  have e: "fst (load_from_file Map.empty (Stream ex_byteord)) =
     Inl (TypeError ''FCS file $BYTEORD is not 4,3,2,1'')"
    using violations_raise_TypeError_or_ImportError
      [where f = ex_byteord and fs = Map.empty and dbeg = 80 and dend = 79
        and d = "py_dict [(''$DATATYPE'', ''I''), (''$MODE'', ''L''),
                          (''$BYTEORD'', ''1,2,3,4'')]"
        and ?v3.0 = "''1,2,3,4''",
        THEN conjunct2, THEN conjunct2, rule_format, OF ex_byteord_text,
        THEN conjunct2, THEN conjunct2, THEN conjunct1]
    by (simp add: py_dict_def)
  have f: "fst (load_from_file Map.empty (Stream ex_bits)) =
     Inl (TypeError ''channel bit width error: $PnB != 16 for all parameters (channels)'')"
    using violations_raise_TypeError_or_ImportError
      [where f = ex_bits and fs = Map.empty and dbeg = 94 and dend = 93
        and d = "py_dict [(''$DATATYPE'', ''I''), (''$MODE'', ''L''),
                          (''$BYTEORD'', ''4,3,2,1''), (''$PAR'', ''1''), (''$P1B'', ''8'')]"
        and n = 1 and bits = "[8]",
        THEN conjunct2, THEN conjunct2, rule_format, OF ex_bits_text,
        THEN conjunct2, THEN conjunct2, THEN conjunct2, THEN conjunct1]
      ex_bits_par ex_bits_bits
    by (simp add: py_dict_def)
  have g: "fst (load_from_file Map.empty (Stream ex_nextdata)) =
     Inl (TypeError ''FCS file contains more than one data set'')"
    using violations_raise_TypeError_or_ImportError
      [where f = ex_nextdata and fs = Map.empty and dbeg = 109 and dend = 108
        and d = "py_dict [(''$DATATYPE'', ''I''), (''$MODE'', ''L''),
                          (''$BYTEORD'', ''4,3,2,1''), (''$PAR'', ''1''), (''$P1B'', ''16''),
                          (''$NEXTDATA'', ''118'')]"
        and n = 1 and bits = "[16]" and ?v4.0 = "''118''",
        THEN conjunct2, THEN conjunct2, rule_format, OF ex_nextdata_text,
        THEN conjunct2, THEN conjunct2, THEN conjunct2, THEN conjunct1]
      ex_nextdata_par ex_nextdata_bits
    by (simp add: py_dict_def)
  have h: "fst (load_from_file Map.empty (Stream ex_size)) =
     Inl (ImportError ''DATA size does not match expected array size'')"
    using violations_raise_TypeError_or_ImportError
      [where f = ex_size and fs = Map.empty and dbeg = 114 and dend = 117
        and d = ex_size_meta and chs = ex_channels and tot = 3 and par = 1,
        THEN conjunct2, THEN conjunct2, rule_format, OF ex_size_text',
        THEN conjunct2, THEN conjunct2, THEN conjunct2, THEN conjunct2]
      ex_size_confirm ex_size_channels ex_size_tot ex_size_par
    by simp
  from a b c d e f g h show ?thesis by simp
qed

lemma load_from_file_Path_success_closed:
  assumes "py_open fs name = Inr f" and "fst (load_body f) = Inr r"
  shows "map_option closed (snd (load_from_file fs (Path name))) = Some True"
  using assms
  by (cases "load_body f") (simp add: load_from_file_def f_close_def)

lemma ex_version_body:
  "load_body ex_version =
     (Inl (TypeError ''incorrection FCS file version''), ex_version\<lparr>pos := 10\<rparr>)"
  by (simp add: load_body_def import_text_def import_header_def io_bind_def io_lift_def
      f_read_def Let_def ex_version_def)

text \<open>
  Claim C3 on a failing input. \<open>load_from_file\<close> is given the name of a file whose version
  tag is \<^verbatim>\<open>'FCS3.0    '\<close>: it opens the file, raises the \<^verbatim>\<open>TypeError\<close> of line 90 and leaves
  the file object it opened unclosed, while the call on a well-formed file closes it.
\<close>
theorem handle_left_open_on_error:
  "load_from_file ex_fs (Path ''broken.fcs'') =
     (Inl (TypeError ''incorrection FCS file version''), Some (ex_version\<lparr>pos := 10\<rparr>))
   \<and> closed (ex_version\<lparr>pos := 10\<rparr>) = False
   \<and> map_option closed (snd (load_from_file ex_fs (Path ''Data001.fcs''))) = Some True"
proof -
  have o1: "py_open ex_fs ''broken.fcs'' = Inr ex_version"
    by (simp add: py_open_def ex_fs_def ex_version_def)
  have o2: "py_open ex_fs ''Data001.fcs'' = Inr ex_good"
    by (simp add: py_open_def ex_fs_def ex_good_def)
  have a: "load_from_file ex_fs (Path ''broken.fcs'') =
     (Inl (TypeError ''incorrection FCS file version''), Some (ex_version\<lparr>pos := 10\<rparr>))"
    by (simp add: load_from_file_def o1 ex_version_body)
  have b: "closed (ex_version\<lparr>pos := 10\<rparr>) = False"
    by (simp add: ex_version_def)
  have c: "map_option closed (snd (load_from_file ex_fs (Path ''Data001.fcs''))) = Some True"
    using load_from_file_Path_success_closed [OF o2]
      ex_good_load [of Map.empty, unfolded load_from_file_Stream]
    by simp
  from a b c show ?thesis by simp
qed

lemma ex_no_datatype_load:
  "fst (load_from_file fs (Stream ex_no_datatype)) = Inl (KeyError ''$DATATYPE'')"
  unfolding load_from_file_Stream load_body_unfold [OF ex_no_datatype_text]
  by (simp add: eval_confirm)

lemma ex_no_mode_load:
  "fst (load_from_file fs (Stream ex_no_mode)) = Inl (KeyError ''$MODE'')"
  unfolding load_from_file_Stream load_body_unfold [OF ex_no_mode_text]
  by (simp add: eval_confirm)

lemma ex_no_byteord_load:
  "fst (load_from_file fs (Stream ex_no_byteord)) = Inl (KeyError ''$BYTEORD'')"
  unfolding load_from_file_Stream load_body_unfold [OF ex_no_byteord_text]
  by (simp add: eval_confirm)

lemma ex_no_par_load:
  "fst (load_from_file fs (Stream ex_no_par)) = Inl (KeyError ''$PAR'')"
  unfolding load_from_file_Stream load_body_unfold [OF ex_no_par_text]
  by (simp add: eval_confirm)

lemma ex_no_pnb_load:
  "fst (load_from_file fs (Stream ex_no_pnb)) = Inl (KeyError ''$P1B'')"
  unfolding load_from_file_Stream load_body_unfold [OF ex_no_pnb_text]
  by (simp add: eval_confirm)

lemma ex_no_nextdata_load:
  "fst (load_from_file fs (Stream ex_no_nextdata)) = Inl (KeyError ''$NEXTDATA'')"
  unfolding load_from_file_Stream load_body_unfold [OF ex_no_nextdata_text]
  by (simp add: eval_confirm)

lemma ex_no_tot_load:
  "fst (load_from_file fs (Stream ex_no_tot)) = Inl (KeyError ''$TOT'')"
  unfolding load_from_file_Stream load_body_unfold [OF ex_no_tot_text]
  by (simp add: eval_confirm eval_channels import_data_def io_bind_def io_lift_def)

text \<open>
  Claim C10. For each of the keys \<open>$DATATYPE\<close>, \<open>$MODE\<close>, \<open>$BYTEORD\<close>, \<open>$PAR\<close>, \<open>$P1B\<close>,
  \<open>$NEXTDATA\<close> and \<open>$TOT\<close> there is a file that passes the version and TEXT checks and lacks
  the key, for which the decoder raises \<^verbatim>\<open>KeyError\<close> with that key, not \<^verbatim>\<open>TypeError\<close> or
  \<^verbatim>\<open>ImportError\<close>.
\<close>
theorem missing_key_raises_KeyError:
  "fst (load_from_file Map.empty (Stream ex_no_datatype)) = Inl (KeyError ''$DATATYPE'')
   \<and> fst (load_from_file Map.empty (Stream ex_no_mode)) = Inl (KeyError ''$MODE'')
   \<and> fst (load_from_file Map.empty (Stream ex_no_byteord)) = Inl (KeyError ''$BYTEORD'')
   \<and> fst (load_from_file Map.empty (Stream ex_no_par)) = Inl (KeyError ''$PAR'')
   \<and> fst (load_from_file Map.empty (Stream ex_no_pnb)) = Inl (KeyError ''$P1B'')
   \<and> fst (load_from_file Map.empty (Stream ex_no_nextdata)) = Inl (KeyError ''$NEXTDATA'')
   \<and> fst (load_from_file Map.empty (Stream ex_no_tot)) = Inl (KeyError ''$TOT'')"
  by (simp add: ex_no_datatype_load ex_no_mode_load ex_no_byteord_load ex_no_par_load
      ex_no_pnb_load ex_no_nextdata_load ex_no_tot_load)

subsection \<open>The gates at the fixtures of the tests\<close>

lemma test_start_end:
  "start_end test_d 2 3 =
     Inr \<lparr>gated_data = [[3, 9, 4], [4, 10, 5], [5, 1, 6], [6, 2, 7], [7, 3, 8]],
          mask = [False, False, True, True, True, True, True, False, False, False]\<rparr>"
  by (simp add: start_end_def test_d_def Let_def eval_nat_numeral)

theorem start_end_rows_witness:
  "start_end test_d 2 3 =
     Inr \<lparr>gated_data = [[3, 9, 4], [4, 10, 5], [5, 1, 6], [6, 2, 7], [7, 3, 8]],
          mask = [False, False, True, True, True, True, True, False, False, False]\<rparr>
   \<and> isl (start_end test_d 5 7)
   \<and> map_sum id gated_data (start_end test_d 4 6) = Inr []"
proof -
  have len: "length test_d = 10" by (simp add: test_d_def)
  have a: "isl (start_end test_d 5 7)"
    using start_end_rows [of test_d 5 7, THEN conjunct1] by (simp add: len)
  have b: "map_sum id gated_data (start_end test_d 4 6) = Inr []"
    using start_end_rows [of test_d 4 6, THEN conjunct2, THEN conjunct2]
    by (auto simp: len)
  from test_start_end a b show ?thesis by simp
qed

lemma test_high_low_mask:
  "map_sum id mask (high_low test_d [] (Some 1) (Some 10)) =
     Inr [False, True, True, False, False, True, True, True, False, False]"
  by (simp add: high_low_def test_d_def in_range_def Let_def)

lemma test_high_low_channel:
  "map_sum id gated_data (high_low test_d [1] (Some 2) (Some 9)) =
     Inr [[1, 7, 2], [2, 8, 3], [7, 3, 8], [8, 4, 9], [9, 5, 10], [10, 6, 1]]"
  by (simp add: high_low_def test_d_def in_range_def Let_def)

lemma test_high_low_column:
  "map_sum id gated_data (high_low test_d1 [] (Some 1) (Some 10)) =
     Inr [[2], [3], [4], [5], [6], [7], [8], [9]]"
  by (simp add: high_low_def test_d1_def in_range_def Let_def)

theorem high_low_retains_witness:
  "map_sum id mask (high_low test_d [] (Some 1) (Some 10)) =
     Inr [False, True, True, False, False, True, True, True, False, False]
   \<and> map_sum id gated_data (high_low test_d [1] (Some 2) (Some 9)) =
     Inr [[1, 7, 2], [2, 8, 3], [7, 3, 8], [8, 4, 9], [9, 5, 10], [10, 6, 1]]
   \<and> map_sum id gated_data (high_low test_d1 [] (Some 1) (Some 10)) =
     Inr [[2], [3], [4], [5], [6], [7], [8], [9]]
   \<and> high_low test_d [] None None =
     Inr \<lparr>gated_data = test_d, mask = replicate 10 True\<rparr>
   \<and> high_low test_d [1] None None =
     Inr \<lparr>gated_data = test_d, mask = replicate 10 True\<rparr>"
proof -
  have len: "length test_d = 10" by (simp add: test_d_def)
  have v: "\<forall>r \<in> set test_d. \<forall>c \<in> set [1]. c < length r"
    by (simp add: test_d_def)
  have a: "high_low test_d [] None None =
     Inr \<lparr>gated_data = test_d, mask = replicate 10 True\<rparr>"
    using high_low_retains [of test_d "[]" 1 10, THEN conjunct2] by (simp add: len)
  have b: "high_low test_d [1] None None =
     Inr \<lparr>gated_data = test_d, mask = replicate 10 True\<rparr>"
    using high_low_retains [OF v, of 2 9, THEN conjunct2] by (simp add: len)
  from test_high_low_mask test_high_low_channel test_high_low_column a b
  show ?thesis by simp
qed

lemma ex_density_half:
  "density2d ex_kde 1 ex_events [0, 1] (1 / 2) =
     Inr \<lparr>gated_data = [[1, 1], [1, 1]], mask = [True, True, False, False]\<rparr>"
  by (simp add: density2d_def threshold_def count_at_or_above_def ex_kde_def ex_events_def
      Let_def)

lemma ex_density_one:
  "density2d ex_kde 1 ex_events [0, 1] 1 =
     Inr \<lparr>gated_data = ex_events, mask = [True, True, True, True]\<rparr>"
  by (simp add: density2d_def threshold_def count_at_or_above_def ex_kde_def ex_events_def
      Let_def)

theorem density2d_nested_witness:
  "density2d ex_kde 1 ex_events [0, 1] (1 / 2) =
     Inr \<lparr>gated_data = [[1, 1], [1, 1]], mask = [True, True, False, False]\<rparr>
   \<and> density2d ex_kde 1 ex_events [0, 1] 1 =
     Inr \<lparr>gated_data = ex_events, mask = [True, True, True, True]\<rparr>
   \<and> set [[1, 1], [1, 1]] \<subseteq> set ex_events"
proof -
  have v: "\<forall>r \<in> set ex_events. \<forall>c \<in> set [0, 1]. c < length r"
    by (simp add: ex_events_def)
  from density2d_nested [of "[0, 1]" ex_events "1 / 2" 1 ex_kde 1, OF _ v]
  obtain r1 r2 where r1: "density2d ex_kde 1 ex_events [0, 1] (1 / 2) = Inr r1"
    and r2: "density2d ex_kde 1 ex_events [0, 1] 1 = Inr r2"
    and sub: "set (gated_data r1) \<subseteq> set (gated_data r2)"
    by auto
  from r1 r2 have "gated_data r1 = [[1, 1], [1, 1]]" and "gated_data r2 = ex_events"
    unfolding ex_density_half ex_density_one by auto
  with sub have "set [[1, 1], [1, 1]] \<subseteq> set ex_events" by simp
  with ex_density_half ex_density_one show ?thesis by simp
qed

end
